theory Spec2Isabelle
  imports Main "HOL-Library.Multiset"
begin

section \<open>Python, framework and database primitives\<close>

text \<open>
  The views of GigFlow are Django REST framework handlers. Each handler reads the caller
  (\<^verbatim>\<open>request.user\<close>), the query string (\<^verbatim>\<open>request.GET\<close>) and the body
  (\<^verbatim>\<open>request.data\<close>), talks to the ORM and returns a \<^verbatim>\<open>Response\<close>. The model passes
  the database explicitly: a handler maps a request and a database to either an
  exception that the view does not catch, or a response, each together with the database
  it leaves behind (every \<^verbatim>\<open>save()\<close> is committed when it returns). A character is a
  code point below 256. The project's settings are not among the sources: the database is
  taken to be SQLite, Django's default.
\<close>

datatype error =
  ValueError | TypeError | OverflowError | ProtectedError | IntegrityError | OperationalError

text \<open>Characters for which Python's \<^verbatim>\<open>str.isspace\<close> holds, and \<^verbatim>\<open>str.strip()\<close>.\<close>

definition py_isspace :: "char \<Rightarrow> bool" where
  "py_isspace c = (c \<in> set [CHR 0x09, CHR 0x0A, CHR 0x0B, CHR 0x0C, CHR 0x0D,
                             CHR 0x1C, CHR 0x1D, CHR 0x1E, CHR 0x1F, CHR 0x20,
                             CHR 0x85, CHR 0xA0])"

definition strip :: "string \<Rightarrow> string" where
  "strip s = rev (dropWhile py_isspace (rev (dropWhile py_isspace s)))"

text \<open>
  Python's \<^verbatim>\<open>int(text)\<close>, which is also what the ORM applies to a text compared with an
  integer column. The whitespace that \<^verbatim>\<open>int\<close> drops around the numeral is narrower than
  that of \<^verbatim>\<open>strip\<close>: the separators \<^verbatim>\<open>0x1C\<close> to \<^verbatim>\<open>0x1F\<close> are not part of it. One sign
  is allowed, the digits may be grouped by single underscores, and a numeral of more than
  4300 digits is refused. \<open>None\<close> stands for the \<^verbatim>\<open>ValueError\<close>.
\<close>

definition int_space :: "char \<Rightarrow> bool" where
  "int_space c = (c \<in> set [CHR 0x09, CHR 0x0A, CHR 0x0B, CHR 0x0C, CHR 0x0D, CHR 0x20,
                            CHR 0x85, CHR 0xA0])"

definition digit_of :: "char \<Rightarrow> nat option" where
  "digit_of c =
     (let code = (of_char c :: nat)
      in if 48 \<le> code \<and> code \<le> 57 then Some (code - 48) else None)"

fun digits_from :: "int \<Rightarrow> string \<Rightarrow> int option" where
  "digits_from acc [] = Some acc"
| "digits_from acc (c # cs) =
     (case digit_of c of
        Some d \<Rightarrow> digits_from (10 * acc + int d) cs
      | None \<Rightarrow>
          (if c = CHR ''_'' then
             (case cs of
                [] \<Rightarrow> None
              | c' # _ \<Rightarrow> (if digit_of c' = None then None else digits_from acc cs))
           else None))"

definition max_str_digits :: nat where
  "max_str_digits = 4300"

definition py_nat :: "string \<Rightarrow> int option" where
  "py_nat s =
     (if max_str_digits < length (filter (\<lambda>c. digit_of c \<noteq> None) s) then None
      else (case s of
              [] \<Rightarrow> None
            | c # cs \<Rightarrow>
                (case digit_of c of None \<Rightarrow> None | Some d \<Rightarrow> digits_from (int d) cs)))"

definition py_int :: "string \<Rightarrow> int option" where
  "py_int s =
     (case rev (dropWhile int_space (rev (dropWhile int_space s))) of
        [] \<Rightarrow> None
      | c # cs \<Rightarrow>
          (if c = CHR ''-'' then map_option uminus (py_nat cs)
           else if c = CHR ''+'' then py_nat cs
           else py_nat (c # cs)))"

text \<open>
  The \<^verbatim>\<open>icontains\<close> lookup is SQLite's \<^verbatim>\<open>LIKE\<close> with the pattern \<^verbatim>\<open>%needle%\<close>, in
  which the ORM has escaped the wildcards of the needle. \<^verbatim>\<open>LIKE\<close> ignores the case of
  the ASCII letters and reads both the pattern and the text up to their first NUL
  character: a needle without NUL must occur in the text as a contiguous piece; a needle
  with NUL loses what follows the NUL together with the closing \<^verbatim>\<open>%\<close>, so that the
  text must end with what precedes the NUL.
\<close>

definition lower_char :: "char \<Rightarrow> char" where
  "lower_char c =
     (case map_of (zip ''ABCDEFGHIJKLMNOPQRSTUVWXYZ'' ''abcdefghijklmnopqrstuvwxyz'') c of
        None \<Rightarrow> c
      | Some l \<Rightarrow> l)"

definition lower :: "string \<Rightarrow> string" where
  "lower s = map lower_char s"

fun starts_with :: "string \<Rightarrow> string \<Rightarrow> bool" where
  "starts_with [] text = True"
| "starts_with (c # cs) [] = False"
| "starts_with (c # cs) (d # ds) = (c = d \<and> starts_with cs ds)"

fun contains :: "string \<Rightarrow> string \<Rightarrow> bool" where
  "contains needle [] = (needle = [])"
| "contains needle (d # ds) = (starts_with needle (d # ds) \<or> contains needle ds)"

definition until_nul :: "string \<Rightarrow> string" where
  "until_nul s = takeWhile (\<lambda>c. c \<noteq> CHR 0x00) s"

definition icontains :: "string \<Rightarrow> string \<Rightarrow> bool" where
  "icontains needle text =
     (if CHR 0x00 \<in> set needle
      then starts_with (rev (lower (until_nul needle))) (rev (lower (until_nul text)))
      else contains (lower needle) (lower (until_nul text)))"

text \<open>
  SQLite refuses a \<^verbatim>\<open>LIKE\<close> pattern of more than 50000 bytes when it evaluates it on a
  row. The pattern is the needle in UTF-8, a backslash before each backslash, percent
  sign and underscore, and the two enclosing percent signs.
\<close>

definition pattern_bytes :: "string \<Rightarrow> nat" where
  "pattern_bytes needle =
     2 + sum_list (map (\<lambda>c. if c \<in> set [CHR 0x5C, CHR ''%'', CHR ''_''] then 2
                              else if (of_char c :: nat) < 128 then 1 else 2) needle)"

definition SQLITE_MAX_LIKE_PATTERN_LENGTH :: nat where
  "SQLITE_MAX_LIKE_PATTERN_LENGTH = 50000"

text \<open>An integer that SQLite can bind as a parameter: 64 bits, signed.\<close>

definition sqlite_integer :: "int \<Rightarrow> bool" where
  "sqlite_integer k = (- (2 ^ 63) \<le> k \<and> k < 2 ^ 63)"

text \<open>Truthiness of a query parameter: \<^verbatim>\<open>None\<close> and the empty text are falsy.\<close>

definition truthy :: "string option \<Rightarrow> bool" where
  "truthy v = (case v of None \<Rightarrow> False | Some s \<Rightarrow> s \<noteq> [])"

section \<open>Data model\<close>

text \<open>
  One record per model class; the primary key \<^verbatim>\<open>id\<close> that Django adds is a field of
  its own. A foreign key holds the key of the row it refers to. Prices are counted in
  hundredths (\<^verbatim>\<open>decimal_places=2\<close>).
\<close>

record category =
  c_id :: int
  c_name :: string
  c_created_at :: nat

record skill =
  s_id :: int
  s_name :: string
  s_category :: int
  s_created_at :: nat

record user =
  u_id :: int
  username :: string
  email :: string
  password :: string
  first_name :: string
  last_name :: string
  user_type :: "string option"
  u_category :: "int option"
  phone_number :: "string option"
  resume :: "string option"
  is_staff :: bool

record project =
  p_id :: int
  p_user :: int
  p_name :: string
  p_description :: string
  p_category :: int
  deadline :: string
  price :: int
  p_created_at :: nat

record samplework =
  sw_id :: int
  sw_user :: int
  sw_name :: string
  sw_description :: string
  sw_skill :: string
  image :: string
  sw_created_at :: nat

text \<open>
  The database: one table per model, and per table the next key its sequence hands out.
\<close>

record db =
  users :: "user list"
  categories :: "category list"
  skills :: "skill list"
  projects :: "project list"
  sampleworks :: "samplework list"
  next_user :: int
  next_project :: int
  next_samplework :: int

text \<open>The primary key constraint: no two rows of a table share their key.\<close>

definition pk_unique :: "db \<Rightarrow> bool" where
  "pk_unique d =
     (distinct (map u_id (users d)) \<and> distinct (map c_id (categories d)) \<and>
      distinct (map s_id (skills d)) \<and> distinct (map p_id (projects d)) \<and>
      distinct (map sw_id (sampleworks d)))"

text \<open>Keys handed out by a sequence are never handed out again.\<close>

definition seq_fresh :: "db \<Rightarrow> bool" where
  "seq_fresh d =
     ((\<forall>u \<in> set (users d). u_id u < next_user d) \<and>
      (\<forall>p \<in> set (projects d). p_id p < next_project d) \<and>
      (\<forall>w \<in> set (sampleworks d). sw_id w < next_samplework d))"

section \<open>Requests and responses\<close>

datatype caller = AnonymousUser | Authenticated user

fun is_authenticated :: "caller \<Rightarrow> bool" where
  "is_authenticated AnonymousUser = False"
| "is_authenticated (Authenticated u) = True"

text \<open>
  A field of the request body is absent, null, a value that the serializer field can
  read, or a value that it cannot read (a boolean, a list, an object; for a key or a
  price also a text that is not a numeral). What a field reads:
  \<^item> a text field reads a JSON text or a JSON number, and takes Python's \<^verbatim>\<open>str\<close> of it;
    the number is given by that text;
  \<^item> a foreign key reads the key that the lookup \<^verbatim>\<open>get(pk=...)\<close> is made with;
  \<^item> the price reads a decimal written with at most two decimal places, given in
    hundredths;
  \<^item> a file field reads an upload: its name, its size in bytes, whether the image
    library accepts it as an image with a known extension, and the name under which
    the storage will save it.
\<close>

datatype 'a field = Absent | Null | Given 'a | Unreadable

datatype scalar = Text string | Number string

fun py_str :: "scalar \<Rightarrow> string" where
  "py_str (Text s) = s"
| "py_str (Number s) = s"

record upload =
  file_name :: string
  file_size :: nat
  is_image :: bool
  saved_as :: string

record 'd request =
  rq_user :: caller
  rq_GET :: "string \<rightharpoonup> string"
  rq_data :: 'd
  rq_now :: nat

record response =
  status :: nat
  detail :: string

definition Response :: "string \<Rightarrow> nat \<Rightarrow> response" where
  "Response msg code = \<lparr>status = code, detail = msg\<rparr>"

abbreviation HTTP_200_OK :: nat where "HTTP_200_OK \<equiv> 200"
abbreviation HTTP_201_CREATED :: nat where "HTTP_201_CREATED \<equiv> 201"
abbreviation HTTP_204_NO_CONTENT :: nat where "HTTP_204_NO_CONTENT \<equiv> 204"
abbreviation HTTP_400_BAD_REQUEST :: nat where "HTTP_400_BAD_REQUEST \<equiv> 400"
abbreviation HTTP_401_UNAUTHORIZED :: nat where "HTTP_401_UNAUTHORIZED \<equiv> 401"
abbreviation HTTP_403_FORBIDDEN :: nat where "HTTP_403_FORBIDDEN \<equiv> 403"
abbreviation HTTP_404_NOT_FOUND :: nat where "HTTP_404_NOT_FOUND \<equiv> 404"

text \<open>
  What a handler does: \<open>Inl\<close> is an exception that leaves the view, \<open>Inr\<close> the
  response it returns; either comes with the database as the handler leaves it.
\<close>

type_synonym outcome = "(error \<times> db) + (response \<times> db)"

fun db_after :: "outcome \<Rightarrow> db" where
  "db_after (Inl (e, d)) = d"
| "db_after (Inr (r, d)) = d"


section \<open>ORM and serializer operations\<close>

text \<open>
  \<^verbatim>\<open>Model.objects.get(id=q, ...)\<close> with the text \<open>q\<close> of a query parameter. A missing
  parameter is Python's \<^verbatim>\<open>None\<close>, which the ORM compares as SQL \<^verbatim>\<open>NULL\<close>: no row
  matches. A text that \<^verbatim>\<open>int\<close> rejects raises \<^verbatim>\<open>ValueError\<close>, which no view catches.
  A number outside the range of the key column is answered by the ORM itself, without a
  query: no row matches, as none can hold such a key. \<open>Inr None\<close> is the
  \<^verbatim>\<open>DoesNotExist\<close> that the views catch. With unique keys at most one row matches.
\<close>

definition objects_get ::
  "('r \<Rightarrow> int) \<Rightarrow> string option \<Rightarrow> ('r \<Rightarrow> bool) \<Rightarrow> 'r list \<Rightarrow> error + 'r option" where
  "objects_get key q extra rows =
     (case q of
        None \<Rightarrow> Inr None
      | Some t \<Rightarrow>
          (case py_int t of
             None \<Rightarrow> Inl ValueError
           | Some i \<Rightarrow> Inr (find (\<lambda>r. key r = i \<and> extra r) rows)))"

text \<open>\<^verbatim>\<open>instance.save()\<close> of a row that exists: the row with that key is overwritten.\<close>

definition save_row :: "('r \<Rightarrow> int) \<Rightarrow> 'r \<Rightarrow> 'r list \<Rightarrow> 'r list" where
  "save_row key r rows = map (\<lambda>x. if key x = key r then r else x) rows"

text \<open>
  A serializer field's \<^verbatim>\<open>run_validation\<close>: an absent field is skipped on a partial
  update and is an error when required; null needs \<^verbatim>\<open>allow_null\<close>; a readable value
  goes through the field's own check.
\<close>

fun run_validation :: "bool \<Rightarrow> bool \<Rightarrow> bool \<Rightarrow> ('a \<Rightarrow> bool) \<Rightarrow> 'a field \<Rightarrow> bool" where
  "run_validation required allow_null partial check Absent = (partial \<or> \<not> required)"
| "run_validation required allow_null partial check Null = allow_null"
| "run_validation required allow_null partial check Unreadable = False"
| "run_validation required allow_null partial check (Given v) = check v"

text \<open>
  A \<^verbatim>\<open>CharField\<close> takes the text of the value and trims it. A blank text needs
  \<^verbatim>\<open>allow_blank\<close> and skips the validators; any other text must hold no NUL character,
  fit \<^verbatim>\<open>max_length\<close> and pass the validators of the field.
\<close>

definition text_value :: "scalar \<Rightarrow> string" where
  "text_value v = strip (py_str v)"

definition char_check :: "bool \<Rightarrow> nat option \<Rightarrow> (string \<Rightarrow> bool) \<Rightarrow> scalar \<Rightarrow> bool" where
  "char_check allow_blank max_length validators v =
     (if text_value v = [] then allow_blank
      else CHR 0x00 \<notin> set (text_value v)
           \<and> (case max_length of None \<Rightarrow> True | Some m \<Rightarrow> length (text_value v) \<le> m)
           \<and> validators (text_value v))"

definition no_validators :: "string \<Rightarrow> bool" where
  "no_validators s = True"

text \<open>
  A \<^verbatim>\<open>FileField\<close> wants an upload with a name of at most 100 characters and with
  content; an \<^verbatim>\<open>ImageField\<close> wants an image besides.
\<close>

definition file_check :: "bool \<Rightarrow> upload \<Rightarrow> bool" where
  "file_check wants_image f =
     (file_name f \<noteq> [] \<and> 0 < file_size f \<and> length (file_name f) \<le> 100 \<and>
      (if wants_image then is_image f else True))"

text \<open>The value a field contributes to \<^verbatim>\<open>validated_data\<close>, or the one the row keeps.\<close>

fun given_or :: "'b \<Rightarrow> ('a \<Rightarrow> 'b) \<Rightarrow> 'a field \<Rightarrow> 'b" where
  "given_or keep conv (Given v) = conv v"
| "given_or keep conv f = keep"

fun nullable_or :: "'b option \<Rightarrow> ('a \<Rightarrow> 'b) \<Rightarrow> 'a field \<Rightarrow> 'b option" where
  "nullable_or keep conv (Given v) = Some (conv v)"
| "nullable_or keep conv Null = None"
| "nullable_or keep conv f = keep"

section \<open>Sample work\<close>

text \<open>
  \<^verbatim>\<open>SampleWorkSerializer\<close>: fields user, name, description, skill, image, created_at
  (\<^verbatim>\<open>created_at\<close> is \<^verbatim>\<open>auto_now_add\<close> and hence read-only).
\<close>

record samplework_data =
  swd_user :: "int field"
  swd_name :: "scalar field"
  swd_description :: "scalar field"
  swd_skill :: "scalar field"
  swd_image :: "upload field"

definition SampleWorkSerializer_is_valid :: "db \<Rightarrow> bool \<Rightarrow> samplework_data \<Rightarrow> bool" where
  "SampleWorkSerializer_is_valid d partial dat =
     (run_validation True False partial (\<lambda>i. i \<in> set (map u_id (users d))) (swd_user dat) \<and>
      run_validation True False partial (char_check False (Some 255) no_validators) (swd_name dat) \<and>
      run_validation True False partial (char_check False None no_validators) (swd_description dat) \<and>
      run_validation True False partial (char_check False (Some 255) no_validators) (swd_skill dat) \<and>
      run_validation False False partial (file_check True) (swd_image dat))"

definition SampleWorkSerializer_update :: "samplework \<Rightarrow> samplework_data \<Rightarrow> samplework" where
  "SampleWorkSerializer_update w dat =
     w\<lparr>sw_user := given_or (sw_user w) id (swd_user dat),
       sw_name := given_or (sw_name w) text_value (swd_name dat),
       sw_description := given_or (sw_description w) text_value (swd_description dat),
       sw_skill := given_or (sw_skill w) text_value (swd_skill dat),
       image := given_or (image w) saved_as (swd_image dat)\<rparr>"

definition SampleWorkSerializer_create :: "int \<Rightarrow> nat \<Rightarrow> int \<Rightarrow> samplework_data \<Rightarrow> samplework" where
  "SampleWorkSerializer_create owner now key dat =
     \<lparr>sw_id = key, sw_user = owner,
      sw_name = given_or [] text_value (swd_name dat),
      sw_description = given_or [] text_value (swd_description dat),
      sw_skill = given_or [] text_value (swd_skill dat),
      image = given_or [] saved_as (swd_image dat),
      sw_created_at = now\<rparr>"

definition SampleWorkView_post :: "samplework_data request \<Rightarrow> db \<Rightarrow> outcome" where
  "SampleWorkView_post req d =
     (case rq_user req of
        AnonymousUser \<Rightarrow>
          Inr (Response ''Authentication required'' HTTP_401_UNAUTHORIZED, d)
      | Authenticated u \<Rightarrow>
          if user_type u \<noteq> Some ''freelancer'' then
            Inr (Response ''Only freelancers can create sample projects'' HTTP_403_FORBIDDEN, d)
          else if SampleWorkSerializer_is_valid d False (rq_data req) then
            Inr (Response ''Sample project created successfully!'' HTTP_201_CREATED,
                 d\<lparr>sampleworks := sampleworks d @
                      [SampleWorkSerializer_create (u_id u) (rq_now req) (next_samplework d)
                         (rq_data req)],
                   next_samplework := next_samplework d + 1\<rparr>)
          else Inr (Response ''Invalid data'' HTTP_400_BAD_REQUEST, d))"

definition SampleWorkView_delete :: "'d request \<Rightarrow> db \<Rightarrow> outcome" where
  "SampleWorkView_delete req d =
     (case rq_user req of
        AnonymousUser \<Rightarrow>
          Inr (Response ''Authentication required'' HTTP_401_UNAUTHORIZED, d)
      | Authenticated u \<Rightarrow>
          if user_type u \<noteq> Some ''freelancer'' then
            Inr (Response ''Only freelancers can delete their sample projects''
                   HTTP_403_FORBIDDEN, d)
          else
            (case objects_get sw_id (rq_GET req ''sample_project_id'')
                    (\<lambda>w. sw_user w = u_id u) (sampleworks d) of
               Inl e \<Rightarrow> Inl (e, d)
             | Inr None \<Rightarrow> Inr (Response ''Sample project not found'' HTTP_404_NOT_FOUND, d)
             | Inr (Some sample_work) \<Rightarrow>
                 Inr (Response ''Sample project deleted successfully!'' HTTP_204_NO_CONTENT,
                      d\<lparr>sampleworks :=
                          filter (\<lambda>w. sw_id w \<noteq> sw_id sample_work) (sampleworks d)\<rparr>)))"

definition SampleWorkView_put :: "samplework_data request \<Rightarrow> db \<Rightarrow> outcome" where
  "SampleWorkView_put req d =
     (case rq_user req of
        AnonymousUser \<Rightarrow>
          Inr (Response ''Authentication required'' HTTP_401_UNAUTHORIZED, d)
      | Authenticated u \<Rightarrow>
          if \<not> truthy (rq_GET req ''sample_project_id'') then
            Inr (Response ''sample_project_id is required'' HTTP_400_BAD_REQUEST, d)
          else
            (case objects_get sw_id (rq_GET req ''sample_project_id'')
                    (\<lambda>w. True) (sampleworks d) of
               Inl e \<Rightarrow> Inl (e, d)
             | Inr None \<Rightarrow> Inr (Response ''Sample project not found'' HTTP_404_NOT_FOUND, d)
             | Inr (Some sample_work) \<Rightarrow>
                 if sw_user sample_work \<noteq> u_id u then
                   Inr (Response ''You can only update your own sample projects''
                          HTTP_403_FORBIDDEN, d)
                 else if SampleWorkSerializer_is_valid d True (rq_data req) then
                   Inr (Response ''Sample project updated successfully!'' HTTP_200_OK,
                        d\<lparr>sampleworks :=
                            save_row sw_id
                              (SampleWorkSerializer_update sample_work (rq_data req))
                              (sampleworks d)\<rparr>)
                 else Inr (Response ''Invalid data'' HTTP_400_BAD_REQUEST, d)))"

section \<open>Projects\<close>

text \<open>
  \<^verbatim>\<open>ProjectSerializer\<close>: fields user, name, description, category, deadline, price,
  created_at (read-only). The price has \<^verbatim>\<open>max_digits=10\<close> and \<^verbatim>\<open>decimal_places=2\<close>:
  at most eight digits before the point.
\<close>

record project_data =
  pd_user :: "int field"
  pd_name :: "scalar field"
  pd_description :: "scalar field"
  pd_category :: "int field"
  pd_deadline :: "scalar field"
  pd_price :: "int field"

definition ProjectSerializer_is_valid :: "db \<Rightarrow> bool \<Rightarrow> project_data \<Rightarrow> bool" where
  "ProjectSerializer_is_valid d partial dat =
     (run_validation True False partial (\<lambda>i. i \<in> set (map u_id (users d))) (pd_user dat) \<and>
      run_validation True False partial (char_check False (Some 255) no_validators) (pd_name dat) \<and>
      run_validation True False partial (char_check False None no_validators) (pd_description dat) \<and>
      run_validation True False partial (\<lambda>i. i \<in> set (map c_id (categories d))) (pd_category dat) \<and>
      run_validation True False partial (char_check False (Some 255) no_validators) (pd_deadline dat) \<and>
      run_validation True False partial (\<lambda>c. \<bar>c\<bar> < 10 ^ 10) (pd_price dat))"

definition ProjectSerializer_update :: "project \<Rightarrow> project_data \<Rightarrow> project" where
  "ProjectSerializer_update p dat =
     p\<lparr>p_user := given_or (p_user p) id (pd_user dat),
       p_name := given_or (p_name p) text_value (pd_name dat),
       p_description := given_or (p_description p) text_value (pd_description dat),
       p_category := given_or (p_category p) id (pd_category dat),
       deadline := given_or (deadline p) text_value (pd_deadline dat),
       price := given_or (price p) id (pd_price dat)\<rparr>"

definition ProjectSerializer_create :: "int \<Rightarrow> nat \<Rightarrow> int \<Rightarrow> project_data \<Rightarrow> project" where
  "ProjectSerializer_create owner now key dat =
     \<lparr>p_id = key, p_user = owner,
      p_name = given_or [] text_value (pd_name dat),
      p_description = given_or [] text_value (pd_description dat),
      p_category = given_or 0 id (pd_category dat),
      deadline = given_or [] text_value (pd_deadline dat),
      price = given_or 0 id (pd_price dat),
      p_created_at = now\<rparr>"

text \<open>
  A queryset is lazy: the view and the filter set only collect conditions, the paginator
  runs the query. The conditions this view collects are \<^verbatim>\<open>name LIKE\<close> patterns, in the
  order in which they were added, and at most one \<^verbatim>\<open>category_id = k\<close>.
\<close>

record queryset =
  likes :: "string list"
  category_is :: "int option"

text \<open>
  \<^verbatim>\<open>ProjectsFilter\<close> binds the query string to a form. A form \<^verbatim>\<open>CharField\<close> trims the
  text and rejects a NUL character; a filter whose value is missing, rejected or empty
  is skipped. The \<^verbatim>\<open>name\<close> filter is declared with \<^verbatim>\<open>lookup_expr="icontains"\<close>; the
  \<^verbatim>\<open>category\<close> filter compares the foreign key exactly, and the ORM turns its text into
  a number as soon as the condition is added.
\<close>

definition form_clean :: "string option \<Rightarrow> string option" where
  "form_clean v =
     (case v of
        None \<Rightarrow> None
      | Some s \<Rightarrow>
          (if CHR 0x00 \<in> set (strip s) \<or> strip s = [] then None else Some (strip s)))"

definition ProjectsFilter_qs :: "(string \<rightharpoonup> string) \<Rightarrow> queryset \<Rightarrow> error + queryset" where
  "ProjectsFilter_qs params qs =
     (let named = (case form_clean (params ''name'') of
                     None \<Rightarrow> qs
                   | Some n \<Rightarrow> qs\<lparr>likes := likes qs @ [n]\<rparr>)
      in case form_clean (params ''category'') of
           None \<Rightarrow> Inr named
         | Some c \<Rightarrow>
             (case py_int c of
                None \<Rightarrow> Inl ValueError
              | Some k \<Rightarrow> Inr (named\<lparr>category_is := Some k\<rparr>)))"

text \<open>
  Running the query on SQLite. A number beyond 64 bits cannot be bound
  (\<^verbatim>\<open>OverflowError\<close>). The rows of the category come from the index of the foreign key;
  on each of them the \<^verbatim>\<open>LIKE\<close> conditions are tried in their order until one fails, and
  a pattern that is too long is refused when it is tried (\<^verbatim>\<open>OperationalError\<close>). No
  \<^verbatim>\<open>ORDER BY\<close> is given: the list stands for the rows in the order in which the
  database yields them.
\<close>

fun like_all :: "string list \<Rightarrow> project list \<Rightarrow> error + project list" where
  "like_all [] rows = Inr rows"
| "like_all (n # ns) rows =
     (if rows \<noteq> [] \<and> SQLITE_MAX_LIKE_PATTERN_LENGTH < pattern_bytes n
      then Inl OperationalError
      else like_all ns (filter (\<lambda>p. icontains n (p_name p)) rows))"

definition run_query :: "queryset \<Rightarrow> project list \<Rightarrow> error + project list" where
  "run_query qs rows =
     (case category_is qs of
        None \<Rightarrow> like_all (likes qs) rows
      | Some k \<Rightarrow>
          if sqlite_integer k then like_all (likes qs) (filter (\<lambda>p. p_category p = k) rows)
          else Inl OverflowError)"

text \<open>
  \<^verbatim>\<open>core/pagination.py\<close> is not among the sources: the paginator, which turns the rows
  of the query and the query string into the response, is a parameter.
\<close>

definition ProjectsView_get ::
  "(project list \<Rightarrow> (string \<rightharpoonup> string) \<Rightarrow> 'page) \<Rightarrow> 'd request \<Rightarrow> db \<Rightarrow> error + 'page" where
  "ProjectsView_get paginator req d =
     (let queryset = \<lparr>likes = [], category_is = None\<rparr>;
          search_query = rq_GET req ''search'';
          queryset = (case search_query of
                        None \<Rightarrow> queryset
                      | Some s \<Rightarrow>
                          if truthy search_query
                          then queryset\<lparr>likes := likes queryset @ [s]\<rparr>
                          else queryset)
      in case ProjectsFilter_qs (rq_GET req) queryset of
           Inl e \<Rightarrow> Inl e
         | Inr qs \<Rightarrow>
             (case run_query qs (projects d) of
                Inl e \<Rightarrow> Inl e
              | Inr rows \<Rightarrow> Inr (paginator rows (rq_GET req))))"

definition ProjectsView_post :: "project_data request \<Rightarrow> db \<Rightarrow> outcome" where
  "ProjectsView_post req d =
     (case rq_user req of
        AnonymousUser \<Rightarrow>
          Inr (Response ''Authenticated required'' HTTP_401_UNAUTHORIZED, d)
      | Authenticated u \<Rightarrow>
          if user_type u = Some ''freelancer'' then
            Inr (Response ''Just employers can create a project'' HTTP_403_FORBIDDEN, d)
          else if ProjectSerializer_is_valid d False (rq_data req) then
            Inr (Response ''Project create successfully!'' HTTP_201_CREATED,
                 d\<lparr>projects := projects d @
                      [ProjectSerializer_create (u_id u) (rq_now req) (next_project d)
                         (rq_data req)],
                   next_project := next_project d + 1\<rparr>)
          else Inr (Response ''Invalid data'' HTTP_400_BAD_REQUEST, d))"

definition ProjectsView_delete :: "'d request \<Rightarrow> db \<Rightarrow> outcome" where
  "ProjectsView_delete req d =
     (case rq_user req of
        AnonymousUser \<Rightarrow>
          Inr (Response ''Authenticated required'' HTTP_401_UNAUTHORIZED, d)
      | Authenticated u \<Rightarrow>
          if user_type u \<noteq> Some ''employer'' then
            Inr (Response ''Just employers can delete projects'' HTTP_403_FORBIDDEN, d)
          else if \<not> truthy (rq_GET req ''project_id'') then
            Inr (Response ''Project ID is required'' HTTP_400_BAD_REQUEST, d)
          else
            (case objects_get p_id (rq_GET req ''project_id'')
                    (\<lambda>p. p_user p = u_id u) (projects d) of
               Inl e \<Rightarrow> Inl (e, d)
             | Inr None \<Rightarrow> Inr (Response ''Project not found'' HTTP_404_NOT_FOUND, d)
             | Inr (Some project) \<Rightarrow>
                 Inr (Response ''Project deleted successfully!'' HTTP_204_NO_CONTENT,
                      d\<lparr>projects := filter (\<lambda>p. p_id p \<noteq> p_id project) (projects d)\<rparr>)))"

definition ProjectsView_put :: "project_data request \<Rightarrow> db \<Rightarrow> outcome" where
  "ProjectsView_put req d =
     (case rq_user req of
        AnonymousUser \<Rightarrow>
          Inr (Response ''Authentication required'' HTTP_401_UNAUTHORIZED, d)
      | Authenticated u \<Rightarrow>
          (case objects_get p_id (rq_GET req ''project_id'')
                  (\<lambda>p. p_user p = u_id u) (projects d) of
             Inl e \<Rightarrow> Inl (e, d)
           | Inr None \<Rightarrow> Inr (Response ''Project not found'' HTTP_404_NOT_FOUND, d)
           | Inr (Some project) \<Rightarrow>
               if ProjectSerializer_is_valid d True (rq_data req) then
                 Inr (Response ''Project updated successfully!'' HTTP_200_OK,
                      d\<lparr>projects :=
                          save_row p_id (ProjectSerializer_update project (rq_data req))
                            (projects d)\<rparr>)
               else Inr (Response ''Invalid data'' HTTP_400_BAD_REQUEST, d)))"

section \<open>Deletion\<close>

text \<open>
  \<^verbatim>\<open>instance.delete()\<close> follows the \<^verbatim>\<open>on_delete\<close> rule of every foreign key that points
  to the row. \<^verbatim>\<open>Skill.category\<close> and \<^verbatim>\<open>Projects.category\<close> are \<^verbatim>\<open>CASCADE\<close>,
  \<^verbatim>\<open>User.category\<close> is \<^verbatim>\<open>PROTECT\<close>: a category that a user refers to is not deleted,
  the ORM raises \<^verbatim>\<open>ProtectedError\<close> before it removes anything. \<^verbatim>\<open>Projects.user\<close> and
  \<^verbatim>\<open>SampleWork.user\<close> are \<^verbatim>\<open>CASCADE\<close>. No model refers to a skill, a project or a
  sample work, so the cascade ends there.
\<close>

definition Category_delete :: "int \<Rightarrow> db \<Rightarrow> error + db" where
  "Category_delete c d =
     (if \<exists>u \<in> set (users d). u_category u = Some c then Inl ProtectedError
      else Inr (d\<lparr>categories := filter (\<lambda>x. c_id x \<noteq> c) (categories d),
                  skills := filter (\<lambda>s. s_category s \<noteq> c) (skills d),
                  projects := filter (\<lambda>p. p_category p \<noteq> c) (projects d)\<rparr>))"

definition User_delete :: "int \<Rightarrow> db \<Rightarrow> db" where
  "User_delete k d =
     d\<lparr>users := filter (\<lambda>u. u_id u \<noteq> k) (users d),
       projects := filter (\<lambda>p. p_user p \<noteq> k) (projects d),
       sampleworks := filter (\<lambda>w. sw_user w \<noteq> k) (sampleworks d)\<rparr>"

section \<open>Users\<close>

text \<open>
  What the views take from Django itself: the password hasher behind \<^verbatim>\<open>set_password\<close>
  (\<^verbatim>\<open>make_password\<close>, applied to a text or to \<^verbatim>\<open>None\<close>) and the rules of its
  \<^verbatim>\<open>EmailValidator\<close>. They belong to the framework and are parameters.
\<close>

record django =
  make_password :: "string option \<Rightarrow> string"
  EmailValidator :: "string \<Rightarrow> bool"

text \<open>
  \<^verbatim>\<open>UnicodeUsernameValidator\<close>: the pattern \<^verbatim>\<open>^[\w.@+-]+\Z\<close>. Below 256 the word
  characters are the ASCII letters and digits, the underscore, and the letters and
  numeric signs of Latin-1.
\<close>

definition word_char :: "char \<Rightarrow> bool" where
  "word_char c =
     (let code = (of_char c :: nat)
      in (48 \<le> code \<and> code \<le> 57) \<or> (65 \<le> code \<and> code \<le> 90) \<or>
         (97 \<le> code \<and> code \<le> 122) \<or> code = 95 \<or>
         code \<in> set [170, 178, 179, 181, 185, 186, 188, 189, 190] \<or>
         (192 \<le> code \<and> code \<le> 214) \<or> (216 \<le> code \<and> code \<le> 246) \<or>
         (248 \<le> code \<and> code \<le> 255))"

definition UnicodeUsernameValidator :: "string \<Rightarrow> bool" where
  "UnicodeUsernameValidator s =
     (s \<noteq> [] \<and> list_all (\<lambda>c. word_char c \<or> c \<in> set ''.@+-'') s)"

text \<open>
  \<^verbatim>\<open>UserSerializer\<close>: fields username, email, password, first_name, last_name,
  user_type, category, phone_number, resume. The first five columns come from Django's
  \<^verbatim>\<open>AbstractUser\<close>; \<^verbatim>\<open>username\<close> and \<^verbatim>\<open>phone_number\<close> are unique, and the serializer
  checks that with a validator that leaves the updated row itself out.
\<close>

record user_data =
  ud_username :: "scalar field"
  ud_email :: "scalar field"
  ud_password :: "scalar field"
  ud_first_name :: "scalar field"
  ud_last_name :: "scalar field"
  ud_user_type :: "scalar field"
  ud_category :: "int field"
  ud_phone_number :: "scalar field"
  ud_resume :: "upload field"

definition USER_TYPE_CHOICES :: "string list" where
  "USER_TYPE_CHOICES = [''freelancer'', ''employer'']"

definition unique_among :: "user list \<Rightarrow> user option \<Rightarrow> (user \<Rightarrow> 'a) \<Rightarrow> 'a \<Rightarrow> bool" where
  "unique_among rows instance column v =
     (\<not> (\<exists>x \<in> set rows. column x = v \<and> Some (u_id x) \<noteq> map_option u_id instance))"

definition UserSerializer_is_valid ::
  "django \<Rightarrow> db \<Rightarrow> user option \<Rightarrow> bool \<Rightarrow> user_data \<Rightarrow> bool" where
  "UserSerializer_is_valid dj d instance partial dat =
     (run_validation True False partial
        (char_check False (Some 150)
           (\<lambda>s. UnicodeUsernameValidator s \<and> unique_among (users d) instance username s))
        (ud_username dat) \<and>
      run_validation False False partial (char_check True (Some 254) (EmailValidator dj))
        (ud_email dat) \<and>
      run_validation True False partial (char_check False (Some 128) no_validators)
        (ud_password dat) \<and>
      run_validation False False partial (char_check True (Some 150) no_validators)
        (ud_first_name dat) \<and>
      run_validation False False partial (char_check True (Some 150) no_validators)
        (ud_last_name dat) \<and>
      run_validation False True partial
        (\<lambda>v. v = Text [] \<or> py_str v \<in> set USER_TYPE_CHOICES)
        (ud_user_type dat) \<and>
      run_validation False True partial (\<lambda>i. i \<in> set (map c_id (categories d)))
        (ud_category dat) \<and>
      run_validation False True partial
        (char_check True (Some 10)
           (\<lambda>s. unique_among (users d) instance phone_number (Some s)))
        (ud_phone_number dat) \<and>
      run_validation False True partial (file_check False) (ud_resume dat))"

definition UserSerializer_update :: "user \<Rightarrow> user_data \<Rightarrow> user" where
  "UserSerializer_update u dat =
     u\<lparr>username := given_or (username u) text_value (ud_username dat),
       email := given_or (email u) text_value (ud_email dat),
       password := given_or (password u) text_value (ud_password dat),
       first_name := given_or (first_name u) text_value (ud_first_name dat),
       last_name := given_or (last_name u) text_value (ud_last_name dat),
       user_type := nullable_or (user_type u) py_str (ud_user_type dat),
       u_category := nullable_or (u_category u) id (ud_category dat),
       phone_number := nullable_or (phone_number u) text_value (ud_phone_number dat),
       resume := nullable_or (resume u) saved_as (ud_resume dat)\<rparr>"

definition UserSerializer_create :: "int \<Rightarrow> user_data \<Rightarrow> user" where
  "UserSerializer_create key dat =
     \<lparr>u_id = key,
      username = given_or [] text_value (ud_username dat),
      email = given_or [] text_value (ud_email dat),
      password = given_or [] text_value (ud_password dat),
      first_name = given_or [] text_value (ud_first_name dat),
      last_name = given_or [] text_value (ud_last_name dat),
      user_type = nullable_or None py_str (ud_user_type dat),
      u_category = nullable_or None id (ud_category dat),
      phone_number = nullable_or None text_value (ud_phone_number dat),
      resume = nullable_or None saved_as (ud_resume dat),
      is_staff = False\<rparr>"

text \<open>
  The unique constraints of the table itself: writing a row whose user name, or whose
  phone number when it is not null, another row already holds raises
  \<^verbatim>\<open>IntegrityError\<close>.
\<close>

definition unique_violation :: "user \<Rightarrow> user list \<Rightarrow> bool" where
  "unique_violation r rows =
     (\<exists>x \<in> set rows. u_id x \<noteq> u_id r \<and>
        (username x = username r \<or>
         (phone_number r \<noteq> None \<and> phone_number x = phone_number r)))"

text \<open>
  \<^verbatim>\<open>user.set_password(request.data.get("password"))\<close>: the value as it was sent, not
  as the serializer read it. The hasher takes a text, or \<^verbatim>\<open>None\<close> when the body has no
  password; for any other value it raises \<^verbatim>\<open>TypeError\<close>.
\<close>

fun set_password :: "django \<Rightarrow> user \<Rightarrow> scalar field \<Rightarrow> error + user" where
  "set_password dj u (Given (Text s)) = Inr (u\<lparr>password := make_password dj (Some s)\<rparr>)"
| "set_password dj u (Given (Number n)) = Inl TypeError"
| "set_password dj u Unreadable = Inl TypeError"
| "set_password dj u f = Inr (u\<lparr>password := make_password dj None\<rparr>)"

datatype 'p reply = Plain response | Paginated 'p

definition UserView_get ::
  "(user list \<Rightarrow> (string \<rightharpoonup> string) \<Rightarrow> 'page) \<Rightarrow> 'd request \<Rightarrow> db \<Rightarrow> 'page reply" where
  "UserView_get paginator req d =
     (case rq_user req of
        AnonymousUser \<Rightarrow> Plain (Response ''Please Sign-up'' HTTP_401_UNAUTHORIZED)
      | Authenticated u \<Rightarrow>
          Paginated (paginator (filter (\<lambda>x. u_id x = u_id u) (users d)) (rq_GET req)))"

text \<open>
  Sign-up: the serializer saves the row, \<^verbatim>\<open>set_password\<close> replaces the password by its
  hash, and the row is saved again.
\<close>

definition UserView_post :: "django \<Rightarrow> user_data request \<Rightarrow> db \<Rightarrow> outcome" where
  "UserView_post dj req d =
     (if is_authenticated (rq_user req) then
        Inr (Response ''You cannot sign up because you already have an account.''
               HTTP_403_FORBIDDEN, d)
      else if \<not> UserSerializer_is_valid dj d None False (rq_data req) then
        Inr (Response ''Invalid data'' HTTP_400_BAD_REQUEST, d)
      else
        (let created = UserSerializer_create (next_user d) (rq_data req)
         in if unique_violation created (users d) then Inl (IntegrityError, d)
            else
              (let d1 = d\<lparr>users := users d @ [created], next_user := next_user d + 1\<rparr>
               in case set_password dj created (ud_password (rq_data req)) of
                    Inl e \<Rightarrow> Inl (e, d1)
                  | Inr hashed \<Rightarrow>
                      Inr (Response ''User created successfully! Now you have an account.''
                             HTTP_201_CREATED,
                           d1\<lparr>users := save_row u_id hashed (users d1)\<rparr>))))"

definition UserView_put :: "django \<Rightarrow> user_data request \<Rightarrow> db \<Rightarrow> outcome" where
  "UserView_put dj req d =
     (case rq_user req of
        AnonymousUser \<Rightarrow>
          Inr (Response ''Authentication required'' HTTP_401_UNAUTHORIZED, d)
      | Authenticated u \<Rightarrow>
          if \<not> truthy (rq_GET req ''user_id'') then
            Inr (Response ''User ID is required'' HTTP_400_BAD_REQUEST, d)
          else
            (case objects_get u_id (rq_GET req ''user_id'') (\<lambda>x. True) (users d) of
               Inl e \<Rightarrow> Inl (e, d)
             | Inr None \<Rightarrow> Inr (Response ''User not found'' HTTP_404_NOT_FOUND, d)
             | Inr (Some target_user) \<Rightarrow>
                 (case Option.bind (rq_GET req ''user_id'') py_int of
                    None \<Rightarrow> Inl (ValueError, d)
                  | Some i \<Rightarrow>
                      if i \<noteq> u_id u then
                        Inr (Response ''You are not authorized to update this user.''
                               HTTP_403_FORBIDDEN, d)
                      else if UserSerializer_is_valid dj d (Some u) True (rq_data req) then
                        (let saved = UserSerializer_update u (rq_data req)
                         in if unique_violation saved (users d) then Inl (IntegrityError, d)
                            else Inr (Response ''User updated successfully!'' HTTP_200_OK,
                                      d\<lparr>users := save_row u_id saved (users d)\<rparr>))
                      else Inr (Response ''Invalid data'' HTTP_400_BAD_REQUEST, d))))"

definition UserView_delete :: "'d request \<Rightarrow> db \<Rightarrow> outcome" where
  "UserView_delete req d =
     (case rq_user req of
        AnonymousUser \<Rightarrow>
          Inr (Response ''Authentication required'' HTTP_403_FORBIDDEN, d)
      | Authenticated u \<Rightarrow>
          if \<not> truthy (rq_GET req ''user_id'') then
            Inr (Response ''User ID is required'' HTTP_400_BAD_REQUEST, d)
          else
            (case objects_get u_id (rq_GET req ''user_id'') (\<lambda>x. True) (users d) of
               Inl e \<Rightarrow> Inl (e, d)
             | Inr None \<Rightarrow> Inr (Response ''User not found'' HTTP_404_NOT_FOUND, d)
             | Inr (Some target_user) \<Rightarrow>
                 (case Option.bind (rq_GET req ''user_id'') py_int of
                    None \<Rightarrow> Inl (ValueError, d)
                  | Some i \<Rightarrow>
                      if i \<noteq> u_id u then
                        Inr (Response ''You are not authorized to delete this user.''
                               HTTP_403_FORBIDDEN, d)
                      else
                        Inr (Response ''User deleted successfully!'' HTTP_204_NO_CONTENT,
                             User_delete (u_id u) d))))"

text \<open>The unique constraints hold in a table when no row violates them.\<close>

definition unique_ok :: "db \<Rightarrow> bool" where
  "unique_ok d = (\<forall>x \<in> set (users d). \<not> unique_violation x (users d))"

text \<open>Every category that a user refers to exists.\<close>

definition user_categories_exist :: "db \<Rightarrow> bool" where
  "user_categories_exist d =
     (\<forall>u \<in> set (users d).
        case u_category u of None \<Rightarrow> True | Some c \<Rightarrow> c \<in> c_id ` set (categories d))"

text \<open>
  One operation on the marketplace: a request to one of the handlers, made by nobody or
  by a user as the table holds them, whether the handler answers or raises, or the
  deletion of a category.
\<close>

definition known_caller :: "caller \<Rightarrow> db \<Rightarrow> bool" where
  "known_caller who d = (case who of AnonymousUser \<Rightarrow> True | Authenticated u \<Rightarrow> u \<in> set (users d))"

inductive step :: "db \<Rightarrow> db \<Rightarrow> bool" where
  project_post:
    "known_caller (rq_user req) d \<Longrightarrow> db_after (ProjectsView_post req d) = d' \<Longrightarrow> step d d'"
| project_put:
    "known_caller (rq_user req) d \<Longrightarrow> db_after (ProjectsView_put req d) = d' \<Longrightarrow> step d d'"
| project_delete:
    "known_caller (rq_user (req :: unit request)) d \<Longrightarrow>
     db_after (ProjectsView_delete req d) = d' \<Longrightarrow> step d d'"
| samplework_post:
    "known_caller (rq_user req) d \<Longrightarrow> db_after (SampleWorkView_post req d) = d' \<Longrightarrow> step d d'"
| samplework_put:
    "known_caller (rq_user req) d \<Longrightarrow> db_after (SampleWorkView_put req d) = d' \<Longrightarrow> step d d'"
| samplework_delete:
    "known_caller (rq_user (req :: unit request)) d \<Longrightarrow>
     db_after (SampleWorkView_delete req d) = d' \<Longrightarrow> step d d'"
| user_post:
    "known_caller (rq_user req) d \<Longrightarrow> db_after (UserView_post dj req d) = d' \<Longrightarrow> step d d'"
| user_put:
    "known_caller (rq_user req) d \<Longrightarrow> db_after (UserView_put dj req d) = d' \<Longrightarrow> step d d'"
| user_delete:
    "known_caller (rq_user (req :: unit request)) d \<Longrightarrow>
     db_after (UserView_delete req d) = d' \<Longrightarrow> step d d'"
| category_delete: "Category_delete c d = Inr d' \<Longrightarrow> step d d'"

section \<open>A small marketplace\<close>

text \<open>
  Concrete data on which the theorems below are exercised: two employers, two freelancers
  and an account without a role; two categories and one skill; one project and one
  sample work.
\<close>

definition alice :: user where
  "alice = \<lparr>u_id = 1, username = ''alice'', email = ''alice@example.com'',
     password = ''pbkdf2$a'', first_name = ''Alice'', last_name = [],
     user_type = Some ''employer'', u_category = None, phone_number = None,
     resume = None, is_staff = False\<rparr>"

definition bob :: user where
  "bob = \<lparr>u_id = 2, username = ''bob'', email = [],
     password = ''pbkdf2$b'', first_name = ''Bob'', last_name = [],
     user_type = Some ''freelancer'', u_category = Some 1, phone_number = Some [],
     resume = None, is_staff = False\<rparr>"

definition carol :: user where
  "carol = \<lparr>u_id = 3, username = ''carol'', email = [],
     password = ''pbkdf2$c'', first_name = ''Carol'', last_name = [],
     user_type = Some ''freelancer'', u_category = None, phone_number = Some ''5550100'',
     resume = None, is_staff = False\<rparr>"

definition root :: user where
  "root = \<lparr>u_id = 4, username = ''root'', email = [],
     password = ''pbkdf2$r'', first_name = [], last_name = [],
     user_type = None, u_category = None, phone_number = None,
     resume = None, is_staff = True\<rparr>"

definition erin :: user where
  "erin = \<lparr>u_id = 5, username = ''erin'', email = [],
     password = ''pbkdf2$e'', first_name = [], last_name = [],
     user_type = Some ''employer'', u_category = None, phone_number = None,
     resume = None, is_staff = False\<rparr>"

definition logo_project :: project where
  "logo_project = \<lparr>p_id = 1, p_user = 1, p_name = ''Logo Design'',
     p_description = ''A logo for a bakery'', p_category = 1, deadline = ''2025-06-01'',
     price = 25000, p_created_at = 10\<rparr>"

definition portfolio :: samplework where
  "portfolio = \<lparr>sw_id = 1, sw_user = 2, sw_name = ''Poster'',
     sw_description = ''A concert poster'', sw_skill = ''Illustration'', image = [],
     sw_created_at = 11\<rparr>"

definition market :: db where
  "market = \<lparr>users = [alice, bob, carol, root, erin],
     categories = [\<lparr>c_id = 1, c_name = ''Design'', c_created_at = 1\<rparr>,
                   \<lparr>c_id = 2, c_name = ''Writing'', c_created_at = 2\<rparr>],
     skills = [\<lparr>s_id = 1, s_name = ''Illustration'', s_category = 1, s_created_at = 3\<rparr>],
     projects = [logo_project],
     sampleworks = [portfolio],
     next_user = 6, next_project = 2, next_samplework = 2\<rparr>"

definition request_of :: "caller \<Rightarrow> (string \<rightharpoonup> string) \<Rightarrow> 'd \<Rightarrow> 'd request" where
  "request_of who params body = \<lparr>rq_user = who, rq_GET = params, rq_data = body, rq_now = 20\<rparr>"

text \<open>Request bodies that carry no field at all.\<close>

definition untouched :: samplework_data where
  "untouched = \<lparr>swd_user = Absent, swd_name = Absent, swd_description = Absent,
     swd_skill = Absent, swd_image = Absent\<rparr>"

definition unchanged :: project_data where
  "unchanged = \<lparr>pd_user = Absent, pd_name = Absent, pd_description = Absent,
     pd_category = Absent, pd_deadline = Absent, pd_price = Absent\<rparr>"

text \<open>A complete, well-formed project submission.\<close>

definition brief :: project_data where
  "brief = \<lparr>pd_user = Given 4, pd_name = Given (Text ''Landing page''),
     pd_description = Given (Text ''One page, responsive''), pd_category = Given 1,
     pd_deadline = Given (Text ''two weeks''), pd_price = Given 40000\<rparr>"

text \<open>Bodies for the user endpoints, and a stand-in for the framework's part.\<close>

definition blank_form :: user_data where
  "blank_form = \<lparr>ud_username = Absent, ud_email = Absent, ud_password = Absent,
     ud_first_name = Absent, ud_last_name = Absent, ud_user_type = Absent,
     ud_category = Absent, ud_phone_number = Absent, ud_resume = Absent\<rparr>"

definition rename :: user_data where
  "rename = blank_form\<lparr>ud_first_name := Given (Text ''Caroline'')\<rparr>"

definition signup :: user_data where
  "signup = blank_form\<lparr>ud_username := Given (Text ''frank''), ud_password := Given (Text ''s3cret''),
     ud_user_type := Given (Text ''freelancer''), ud_category := Given 2\<rparr>"

definition toy_django :: django where
  "toy_django =
     \<lparr>make_password = (\<lambda>raw. case raw of None \<Rightarrow> ''!'' | Some s \<Rightarrow> ''toy$'' @ rev s),
      EmailValidator = (\<lambda>s. CHR ''@'' \<in> set s)\<rparr>"

text \<open>Bodies that fail validation: a price of nine whole digits, a blank name, a taken user name.\<close>

definition overpriced :: project_data where
  "overpriced = unchanged\<lparr>pd_price := Given 12345678900\<rparr>"

definition nameless :: samplework_data where
  "nameless = untouched\<lparr>swd_name := Given (Text ''  '')\<rparr>"

definition name_taken :: user_data where
  "name_taken = blank_form\<lparr>ud_username := Given (Text ''alice'')\<rparr>"

text \<open>A second project, and a paginator that puts every row on one page.\<close>

definition blog_project :: project where
  "blog_project = \<lparr>p_id = 2, p_user = 5, p_name = ''Blog posts'',
     p_description = ''Ten posts on baking'', p_category = 2, deadline = ''2025-07-15'',
     price = 90000, p_created_at = 12\<rparr>"

definition catalogue :: db where
  "catalogue = market\<lparr>projects := [logo_project, blog_project], next_project := 3\<rparr>"

definition one_page :: "project list \<Rightarrow> (string \<rightharpoonup> string) \<Rightarrow> project list" where
  "one_page rows params = rows"

section \<open>Properties\<close>

lemma find_unique_key:
  assumes "distinct (map key rows)" and "w \<in> set rows"
  shows "find (\<lambda>r. key r = key w \<and> extra r) rows = (if extra w then Some w else None)"
  using assms
proof (induction rows)
  case Nil
  then show ?case by simp
next
  case (Cons r rows)
  show ?case
  proof (cases "r = w")
    case True
    with Cons.prems have "key w \<notin> key ` set rows"
      by simp
    then have "\<forall>x \<in> set rows. key x \<noteq> key w"
      by (metis imageI)
    then have "find (\<lambda>r. key r = key w \<and> extra r) rows = None"
      by (auto simp: find_None_iff)
    with True show ?thesis by simp
  next
    case False
    with Cons.prems have "w \<in> set rows" and "key r \<noteq> key w"
      by auto
    with Cons show ?thesis by simp
  qed
qed

lemma py_int_nonempty: "py_int t = Some i \<Longrightarrow> t \<noteq> []"
  by (auto simp: py_int_def)

lemma objects_get_hit:
  assumes "distinct (map key rows)" and "w \<in> set rows" and "py_int t = Some (key w)"
  shows "objects_get key (Some t) extra rows = Inr (if extra w then Some w else None)"
  using assms by (simp add: objects_get_def find_unique_key)

lemmas fixture_defs =
  market_def alice_def bob_def carol_def root_def erin_def logo_project_def portfolio_def request_of_def

lemmas py_int_defs = py_int_def py_nat_def digit_of_def int_space_def max_str_digits_def

lemmas validation_defs =
  char_check_def no_validators_def text_value_def strip_def py_isspace_def file_check_def

lemma find_key_present:
  assumes "i \<in> key ` set rows"
  shows "\<exists>r. find (\<lambda>r. key r = i \<and> True) rows = Some r \<and> key r = i"
  using assms by (induction rows) auto

lemma find_key_absent:
  assumes "i \<notin> key ` set rows"
  shows "find (\<lambda>r. key r = i \<and> extra r) rows = None"
  using assms by (induction rows) auto

lemma save_row_appended:
  assumes "\<forall>x \<in> set rows. key x \<noteq> key r" and "key r' = key r"
  shows "save_row key r' (rows @ [r]) = rows @ [r']"
  using assms by (simp add: save_row_def map_idI)

text \<open>
  \<^verbatim>\<open>int\<close> on texts of a query string: padding, a sign and grouped digits are read; a
  separator character around the numeral, a misplaced underscore and a numeral of more
  than 4300 digits are refused.
\<close>

lemma py_int_reads:
  "py_int '' +1_0 '' = Some 10 \<and> py_int ''-07'' = Some (- 7)"
  by (simp add: py_int_defs)

lemma py_int_refuses:
  "py_int [CHR 0x1F, CHR ''3''] = None \<and> py_int [CHR ''3'', CHR 0x1C] = None \<and>
   py_int ''1__0'' = None \<and> py_int ''_1'' = None \<and> py_int ''+'' = None"
  by (simp add: py_int_defs)

lemma int_trim_clean:
  assumes "\<forall>c \<in> set s. \<not> int_space c"
  shows "rev (dropWhile int_space (rev (dropWhile int_space s))) = s"
proof -
  have "dropWhile int_space s = s"
    using assms by (cases s) auto
  moreover have "dropWhile int_space (rev s) = rev s"
    using assms by (cases "rev s") (auto simp: dropWhile_eq_self_iff dest: arg_cong [where f = set])
  ultimately show ?thesis by simp
qed

lemma py_int_digit_limit:
  assumes "max_str_digits < n"
  shows "py_int (replicate n (CHR ''1'')) = None"
proof -
  from assms obtain m where n: "n = Suc m" by (cases n) auto
  have "rev (dropWhile int_space (rev (dropWhile int_space (replicate n (CHR ''1''))))) =
        replicate n (CHR ''1'')"
    by (rule int_trim_clean) (simp add: int_space_def)
  moreover have "py_nat (replicate n (CHR ''1'')) = None"
    using assms by (simp add: py_nat_def digit_of_def)
  ultimately show ?thesis
    by (simp add: py_int_def n)
qed

text \<open>
  C1. For an authenticated freelancer and a sample work that another user owns, PUT with
  the record's id answers 403 and DELETE with the same id answers 404; neither changes
  the database.
\<close>

theorem samplework_non_owner_put_403_delete_404:
  assumes "pk_unique d" and "w \<in> set (sampleworks d)" and "sw_user w \<noteq> u_id u"
    and "user_type u = Some ''freelancer''" and "rq_user req = Authenticated u"
    and "rq_GET req ''sample_project_id'' = Some t" and "py_int t = Some (sw_id w)"
  shows "SampleWorkView_put req d =
           Inr (Response ''You can only update your own sample projects'' 403, d) \<and>
         SampleWorkView_delete req d = Inr (Response ''Sample project not found'' 404, d) \<and>
         status (Response ''You can only update your own sample projects'' 403) \<noteq>
           status (Response ''Sample project not found'' 404)"
proof -
  from assms(1) have dist: "distinct (map sw_id (sampleworks d))"
    by (simp add: pk_unique_def)
  have nonempty: "truthy (Some t)"
    using py_int_nonempty [OF assms(7)] by (simp add: truthy_def)
  have put_get: "objects_get sw_id (Some t) (\<lambda>w. True) (sampleworks d) = Inr (Some w)"
    using objects_get_hit [OF dist assms(2) assms(7), of "\<lambda>w. True"] by simp
  have del_get: "objects_get sw_id (Some t) (\<lambda>w. sw_user w = u_id u) (sampleworks d) = Inr None"
    using objects_get_hit [OF dist assms(2) assms(7), of "\<lambda>w. sw_user w = u_id u"] assms(3)
    by simp
  have put: "SampleWorkView_put req d =
      Inr (Response ''You can only update your own sample projects'' 403, d)"
    using assms(3,5,6) nonempty put_get by (simp add: SampleWorkView_put_def)
  have del: "SampleWorkView_delete req d = Inr (Response ''Sample project not found'' 404, d)"
    using assms(4,5,6) del_get by (simp add: SampleWorkView_delete_def)
  show ?thesis using put del by (simp add: Response_def)
qed

theorem samplework_non_owner_witness:
  "SampleWorkView_put
     (request_of (Authenticated carol) [''sample_project_id'' \<mapsto> ''1''] untouched) market =
     Inr (Response ''You can only update your own sample projects'' 403, market) \<and>
   SampleWorkView_delete
     (request_of (Authenticated carol) [''sample_project_id'' \<mapsto> ''1''] untouched) market =
     Inr (Response ''Sample project not found'' 404, market)"
  using samplework_non_owner_put_403_delete_404
    [of market portfolio carol
        "request_of (Authenticated carol) [''sample_project_id'' \<mapsto> ''1''] untouched" "''1''"]
  by (simp add: fixture_defs py_int_defs pk_unique_def)

text \<open>
  An id that \<^verbatim>\<open>int\<close> refuses, here the digit 1 after a unit separator, ends both
  requests in \<^verbatim>\<open>ValueError\<close>.
\<close>

lemma samplework_separator_id_value_error:
  "SampleWorkView_put
     (request_of (Authenticated carol) [''sample_project_id'' \<mapsto> [CHR 0x1F, CHR ''1'']]
        untouched) market = Inl (ValueError, market) \<and>
   SampleWorkView_delete
     (request_of (Authenticated carol) [''sample_project_id'' \<mapsto> [CHR 0x1F, CHR ''1'']]
        untouched) market = Inl (ValueError, market)"
  by (simp add: SampleWorkView_put_def SampleWorkView_delete_def objects_get_def truthy_def
      fixture_defs py_int_defs)

text \<open>
  C2. For an authenticated employer and a project that another user owns, PUT and DELETE
  with the project's id both answer 404, and the database is left as it was.
\<close>

theorem project_non_owner_put_delete_404:
  assumes "pk_unique d" and "p \<in> set (projects d)" and "p_user p \<noteq> u_id u"
    and "user_type u = Some ''employer''" and "rq_user req = Authenticated u"
    and "rq_GET req ''project_id'' = Some t" and "py_int t = Some (p_id p)"
  shows "ProjectsView_put req d = Inr (Response ''Project not found'' 404, d) \<and>
         ProjectsView_delete req d = Inr (Response ''Project not found'' 404, d) \<and>
         status (Response ''Project not found'' 404) = 404"
proof -
  from assms(1) have dist: "distinct (map p_id (projects d))"
    by (simp add: pk_unique_def)
  have nonempty: "truthy (Some t)"
    using py_int_nonempty [OF assms(7)] by (simp add: truthy_def)
  have miss: "objects_get p_id (Some t) (\<lambda>p. p_user p = u_id u) (projects d) = Inr None"
    using objects_get_hit [OF dist assms(2) assms(7), of "\<lambda>p. p_user p = u_id u"] assms(3)
    by simp
  have put: "ProjectsView_put req d = Inr (Response ''Project not found'' 404, d)"
    using assms(5,6) miss by (simp add: ProjectsView_put_def)
  have del: "ProjectsView_delete req d = Inr (Response ''Project not found'' 404, d)"
    using assms(4,5,6) nonempty miss by (simp add: ProjectsView_delete_def)
  show ?thesis using put del by (simp add: Response_def)
qed

theorem project_non_owner_witness:
  "ProjectsView_put
     (request_of (Authenticated erin)
        [''project_id'' \<mapsto> ''1''] unchanged) market =
     Inr (Response ''Project not found'' 404, market) \<and>
   ProjectsView_delete
     (request_of (Authenticated erin)
        [''project_id'' \<mapsto> ''1''] unchanged) market =
     Inr (Response ''Project not found'' 404, market)"
  using project_non_owner_put_delete_404
    [of market logo_project
        erin
        "request_of (Authenticated erin)
        [''project_id'' \<mapsto> ''1''] unchanged" "''1''"]
  by (simp add: fixture_defs py_int_defs pk_unique_def)

text \<open>
  What \<^verbatim>\<open>ProjectsView.post\<close> does for the roles it tells apart: a freelancer is turned
  away with 403; every other authenticated caller with a valid body, an employer among
  them, gets 201 and owns the new project.
\<close>

lemma project_post_freelancer_403:
  assumes "rq_user req = Authenticated u" and "user_type u = Some ''freelancer''"
  shows "ProjectsView_post req d =
           Inr (Response ''Just employers can create a project'' 403, d)"
  using assms by (simp add: ProjectsView_post_def)

lemma project_post_not_freelancer_201:
  assumes "rq_user req = Authenticated u" and "user_type u \<noteq> Some ''freelancer''"
    and "ProjectSerializer_is_valid d False (rq_data req)"
  shows "ProjectsView_post req d =
           Inr (Response ''Project create successfully!'' 201,
                d\<lparr>projects := projects d @
                     [ProjectSerializer_create (u_id u) (rq_now req) (next_project d)
                        (rq_data req)],
                  next_project := next_project d + 1\<rparr>)"
    and "p_user (ProjectSerializer_create (u_id u) (rq_now req) (next_project d)
           (rq_data req)) = u_id u"
  using assms by (simp_all add: ProjectsView_post_def ProjectSerializer_create_def)

lemma project_post_employer_201:
  assumes "rq_user req = Authenticated u" and "user_type u = Some ''employer''"
    and "ProjectSerializer_is_valid d False (rq_data req)"
  shows "ProjectsView_post req d =
           Inr (Response ''Project create successfully!'' 201,
                d\<lparr>projects := projects d @
                     [ProjectSerializer_create (u_id u) (rq_now req) (next_project d)
                        (rq_data req)],
                  next_project := next_project d + 1\<rparr>)"
  using assms project_post_not_freelancer_201(1) [of req u d] by simp

text \<open>
  C3. Only an employer may create a project; every other authenticated caller is to be
  answered 403. The handler compares the role with \<^verbatim>\<open>"freelancer"\<close> only: for the
  account \<open>root\<close>, whose role is null, a valid body is answered 201 and the project is
  stored.
\<close>

theorem project_post_null_role_creates:
  "user_type root \<noteq> Some ''employer'' \<and>
   ProjectsView_post (request_of (Authenticated root) Map.empty brief) market =
     Inr (Response ''Project create successfully!'' 201,
          market\<lparr>projects := [logo_project,
             \<lparr>p_id = 2, p_user = 4, p_name = ''Landing page'',
              p_description = ''One page, responsive'', p_category = 1,
              deadline = ''two weeks'', price = 40000, p_created_at = 20\<rparr>],
            next_project := 3\<rparr>)"
  by (simp add: ProjectsView_post_def ProjectSerializer_is_valid_def
      ProjectSerializer_create_def fixture_defs brief_def validation_defs)

text \<open>
  The handlers that ask for an authenticated caller, met by an anonymous one: all but
  \<^verbatim>\<open>UserView.delete\<close> answer 401 and leave the database alone.
\<close>

lemma anonymous_401:
  assumes "rq_user preq = AnonymousUser" and "rq_user wreq = AnonymousUser"
    and "rq_user ureq = AnonymousUser"
  shows "ProjectsView_post preq d = Inr (Response ''Authenticated required'' 401, d)"
    and "ProjectsView_put preq d = Inr (Response ''Authentication required'' 401, d)"
    and "ProjectsView_delete preq d = Inr (Response ''Authenticated required'' 401, d)"
    and "SampleWorkView_post wreq d = Inr (Response ''Authentication required'' 401, d)"
    and "SampleWorkView_put wreq d = Inr (Response ''Authentication required'' 401, d)"
    and "SampleWorkView_delete wreq d = Inr (Response ''Authentication required'' 401, d)"
    and "UserView_get paginator ureq d = Plain (Response ''Please Sign-up'' 401)"
    and "UserView_put dj ureq d = Inr (Response ''Authentication required'' 401, d)"
  using assms
  by (simp_all add: ProjectsView_post_def ProjectsView_put_def ProjectsView_delete_def
      SampleWorkView_post_def SampleWorkView_put_def SampleWorkView_delete_def
      UserView_get_def UserView_put_def)

text \<open>
  C4. Every operation that needs authentication answers an anonymous caller with 401.
  \<^verbatim>\<open>UserView.delete\<close> does not: its first branch carries the message
  "Authentication required" and the status 403.
\<close>

theorem user_delete_anonymous_403:
  "UserView_delete (request_of AnonymousUser [''user_id'' \<mapsto> ''1''] ()) market =
     Inr (Response ''Authentication required'' 403, market) \<and>
   status (Response ''Authentication required'' 403) \<noteq> 401"
  by (simp add: UserView_delete_def request_of_def Response_def)

text \<open>
  When the unique constraints can reject data that the serializer accepted. The
  serializer's unique validator is skipped for a blank text, so the one case is a blank
  phone number while another row already holds a blank phone number.
\<close>

lemma signup_violation_is_blank_phone:
  assumes "UserSerializer_is_valid dj d None False dat"
    and "unique_violation (UserSerializer_create k dat) (users d)"
  shows "\<exists>v. ud_phone_number dat = Given v \<and> text_value v = [] \<and>
             (\<exists>x \<in> set (users d). phone_number x = Some [])"
proof -
  from assms(1) obtain n where n: "ud_username dat = Given n"
    and free: "unique_among (users d) None username (text_value n)"
    by (cases "ud_username dat")
       (auto simp: UserSerializer_is_valid_def char_check_def split: if_splits)
  from free have no_name: "\<forall>x \<in> set (users d). username x \<noteq> text_value n"
    by (auto simp: unique_among_def)
  from assms(2) no_name n obtain x where x: "x \<in> set (users d)"
    and ph: "phone_number (UserSerializer_create k dat) \<noteq> None"
            "phone_number x = phone_number (UserSerializer_create k dat)"
    by (auto simp: unique_violation_def UserSerializer_create_def)
  from ph(1) obtain v where v: "ud_phone_number dat = Given v"
    by (cases "ud_phone_number dat") (auto simp: UserSerializer_create_def)
  with ph(2) have held: "phone_number x = Some (text_value v)"
    by (simp add: UserSerializer_create_def)
  have "text_value v = []"
  proof (rule ccontr)
    assume "text_value v \<noteq> []"
    with assms(1) v have "unique_among (users d) None phone_number (Some (text_value v))"
      by (simp add: UserSerializer_is_valid_def char_check_def)
    with x held show False
      by (auto simp: unique_among_def)
  qed
  with v x held show ?thesis by auto
qed

lemma update_violation_is_blank_phone:
  assumes "unique_ok d" and "u \<in> set (users d)"
    and "UserSerializer_is_valid dj d (Some u) True dat"
    and "unique_violation (UserSerializer_update u dat) (users d)"
  shows "\<exists>v. ud_phone_number dat = Given v \<and> text_value v = [] \<and>
             (\<exists>x \<in> set (users d). u_id x \<noteq> u_id u \<and> phone_number x = Some [])"
proof -
  let ?saved = "UserSerializer_update u dat"
  from assms(1,2) have own: "\<not> unique_violation u (users d)"
    by (simp add: unique_ok_def)
  from assms(4) obtain x where x: "x \<in> set (users d)" "u_id x \<noteq> u_id u"
    and clash: "username x = username ?saved \<or>
                (phone_number ?saved \<noteq> None \<and> phone_number x = phone_number ?saved)"
    by (auto simp: unique_violation_def UserSerializer_update_def)
  have no_name: "username x \<noteq> username ?saved"
  proof (cases "ud_username dat")
    case (Given n)
    with assms(3) have "unique_among (users d) (Some u) username (text_value n)"
      by (auto simp: UserSerializer_is_valid_def char_check_def split: if_splits)
    with x Given show ?thesis
      by (auto simp: unique_among_def UserSerializer_update_def)
  qed (use own x in \<open>auto simp: unique_violation_def UserSerializer_update_def\<close>)
  with clash have ph: "phone_number ?saved \<noteq> None" "phone_number x = phone_number ?saved"
    by auto
  show ?thesis
  proof (cases "ud_phone_number dat")
    case (Given v)
    with ph(2) have held: "phone_number x = Some (text_value v)"
      by (simp add: UserSerializer_update_def)
    have "text_value v = []"
    proof (rule ccontr)
      assume "text_value v \<noteq> []"
      with assms(3) Given
      have "unique_among (users d) (Some u) phone_number (Some (text_value v))"
        by (simp add: UserSerializer_is_valid_def char_check_def)
      with x held show False
        by (auto simp: unique_among_def)
    qed
    with Given x held show ?thesis by auto
  qed (use own x ph in \<open>auto simp: unique_violation_def UserSerializer_update_def\<close>)
qed

lemma market_well_formed: "pk_unique market \<and> seq_fresh market \<and> unique_ok market"
  by (simp add: pk_unique_def seq_fresh_def unique_ok_def unique_violation_def fixture_defs)

text \<open>
  \<^verbatim>\<open>UserView.put\<close> by an authenticated caller with a readable \<^verbatim>\<open>user_id\<close>. Another
  user's id is answered 403, an id that no user has 404, and nothing changes. With the
  caller's own id a body that \<^verbatim>\<open>is_valid()\<close> accepts is saved and answered 200, unless
  the table's unique constraints refuse the row: then \<^verbatim>\<open>save()\<close> raises
  \<^verbatim>\<open>IntegrityError\<close>, which the view does not catch.
\<close>

lemma user_put_other_id:
  assumes "rq_user req = Authenticated u" and "rq_GET req ''user_id'' = Some t"
    and "py_int t = Some i" and "i \<noteq> u_id u"
  shows "UserView_put dj req d =
           Inr (if i \<in> u_id ` set (users d)
                then Response ''You are not authorized to update this user.'' 403
                else Response ''User not found'' 404, d)"
proof -
  have nonempty: "truthy (Some t)"
    using py_int_nonempty [OF assms(3)] by (simp add: truthy_def)
  show ?thesis
  proof (cases "i \<in> u_id ` set (users d)")
    case True
    then obtain r where "find (\<lambda>r. u_id r = i \<and> True) (users d) = Some r"
      using find_key_present [of i u_id "users d"] by auto
    then have "objects_get u_id (Some t) (\<lambda>x. True) (users d) = Inr (Some r)"
      using assms(3) by (simp add: objects_get_def)
    with assms nonempty True show ?thesis
      by (simp add: UserView_put_def)
  next
    case False
    then have "objects_get u_id (Some t) (\<lambda>x. True) (users d) = Inr None"
      using assms(3) find_key_absent [of i u_id "users d" "\<lambda>x. True"]
      by (simp add: objects_get_def)
    with assms nonempty False show ?thesis
      by (simp add: UserView_put_def)
  qed
qed

lemma user_put_own_id:
  assumes "rq_user req = Authenticated u" and "rq_GET req ''user_id'' = Some t"
    and "py_int t = Some (u_id u)" and "u_id u \<in> u_id ` set (users d)"
    and "UserSerializer_is_valid dj d (Some u) True (rq_data req)"
  shows "UserView_put dj req d =
           (if unique_violation (UserSerializer_update u (rq_data req)) (users d)
            then Inl (IntegrityError, d)
            else Inr (Response ''User updated successfully!'' 200,
                      d\<lparr>users := map (\<lambda>x. if u_id x = u_id u
                                           then UserSerializer_update u (rq_data req) else x)
                                    (users d)\<rparr>))"
proof -
  have nonempty: "truthy (Some t)"
    using py_int_nonempty [OF assms(3)] by (simp add: truthy_def)
  from assms(4) obtain r where "find (\<lambda>r. u_id r = u_id u \<and> True) (users d) = Some r"
    using find_key_present [of "u_id u" u_id "users d"] by auto
  then have got: "objects_get u_id (Some t) (\<lambda>x. True) (users d) = Inr (Some r)"
    using assms(3) by (simp add: objects_get_def)
  have key: "u_id (UserSerializer_update u (rq_data req)) = u_id u"
    by (simp add: UserSerializer_update_def)
  show ?thesis
    using assms nonempty got key by (simp add: UserView_put_def save_row_def)
qed

text \<open>
  C5. With the caller's own id and valid data, PUT \<^verbatim>\<open>/users/?user_id=<id>\<close> is to answer
  200 and update the record. \<open>carol\<close> sends a blank phone number, which the serializer
  accepts without asking whether it is unique; \<open>bob\<close> holds a blank phone number
  already, the unique column refuses the row, and the request ends in
  \<^verbatim>\<open>IntegrityError\<close> with nothing updated.
\<close>

theorem user_put_blank_phone_integrity_error:
  "UserSerializer_is_valid toy_django market (Some carol) True
     (blank_form\<lparr>ud_phone_number := Given (Text [])\<rparr>) \<and>
   UserView_put toy_django
     (request_of (Authenticated carol) [''user_id'' \<mapsto> ''3'']
        (blank_form\<lparr>ud_phone_number := Given (Text [])\<rparr>)) market =
     Inl (IntegrityError, market)"
  by (simp add: UserView_put_def UserSerializer_is_valid_def UserSerializer_update_def
      objects_get_def truthy_def unique_violation_def unique_among_def blank_form_def
      fixture_defs py_int_defs validation_defs)

text \<open>
  How a blank phone number gets into the table: a sign-up that sends one is valid as
  long as no other row holds a blank phone number, and stores it as it is.
\<close>

lemma signup_stores_blank_phone:
  "UserView_post toy_django
     (request_of AnonymousUser Map.empty (signup\<lparr>ud_phone_number := Given (Text [])\<rparr>))
     (market\<lparr>users := [alice, carol, root, erin]\<rparr>) =
     Inr (Response ''User created successfully! Now you have an account.'' 201,
          market\<lparr>users := [alice, carol, root, erin,
              \<lparr>u_id = 6, username = ''frank'', email = [], password = ''toy$terc3s'',
               first_name = [], last_name = [], user_type = Some ''freelancer'',
               u_category = Some 2, phone_number = Some [], resume = None, is_staff = False\<rparr>],
            next_user := 7\<rparr>)"
  by (simp add: UserView_post_def UserSerializer_is_valid_def UserSerializer_create_def
      unique_violation_def unique_among_def USER_TYPE_CHOICES_def UnicodeUsernameValidator_def
      word_char_def signup_def blank_form_def toy_django_def fixture_defs validation_defs
      save_row_def)

text \<open>
  A PUT with the caller's own id that the table admits rewrites each column from the
  field of the body that bears its name, trimmed, and leaves the other rows alone. The
  password is stored as the body gives it.
\<close>

lemma user_put_rewrites_every_field:
  "UserView_put toy_django
     (request_of (Authenticated carol) [''user_id'' \<mapsto> '' 3'']
        \<lparr>ud_username = Given (Text ''caroline''), ud_email = Given (Text ''c@example.com ''),
         ud_password = Given (Text ''open sesame''), ud_first_name = Given (Text ''Caroline''),
         ud_last_name = Given (Text ''Jones''), ud_user_type = Given (Text ''employer''),
         ud_category = Given 2, ud_phone_number = Given (Number ''5550199''),
         ud_resume = Given \<lparr>file_name = ''cv.pdf'', file_size = 2048, is_image = False,
                              saved_as = ''resumes/cv.pdf''\<rparr>\<rparr>) market =
     Inr (Response ''User updated successfully!'' 200,
          market\<lparr>users := [alice, bob,
              \<lparr>u_id = 3, username = ''caroline'', email = ''c@example.com'',
               password = ''open sesame'', first_name = ''Caroline'', last_name = ''Jones'',
               user_type = Some ''employer'', u_category = Some 2,
               phone_number = Some ''5550199'', resume = Some ''resumes/cv.pdf'',
               is_staff = False\<rparr>,
              root, erin]\<rparr>)"
  by (simp add: UserView_put_def UserSerializer_is_valid_def UserSerializer_update_def
      objects_get_def truthy_def unique_violation_def unique_among_def USER_TYPE_CHOICES_def
      UnicodeUsernameValidator_def word_char_def toy_django_def fixture_defs py_int_defs
      validation_defs save_row_def)

text \<open>
  \<^verbatim>\<open>UserView.post\<close>: a caller who is authenticated is answered 403 and nothing is
  created. For an anonymous caller whose body is valid, whose password is a text and
  whose row the unique constraints admit, the answer is 201 and the row that stays holds
  the hash of the submitted text, written by the second save.
\<close>

lemma signup_authenticated_403:
  assumes "is_authenticated (rq_user req)"
  shows "UserView_post dj req d =
           Inr (Response ''You cannot sign up because you already have an account.'' 403, d)"
  using assms by (simp add: UserView_post_def)

lemma signup_text_password_201:
  assumes "\<not> is_authenticated (rq_user req)"
    and "UserSerializer_is_valid dj d None False (rq_data req)"
    and "\<not> unique_violation (UserSerializer_create (next_user d) (rq_data req)) (users d)"
    and "seq_fresh d"
    and "ud_password (rq_data req) = Given (Text pw)"
  shows "UserView_post dj req d =
           Inr (Response ''User created successfully! Now you have an account.'' 201,
                d\<lparr>users := users d @
                     [(UserSerializer_create (next_user d) (rq_data req))
                        \<lparr>password := make_password dj (Some pw)\<rparr>],
                  next_user := next_user d + 1\<rparr>)"
proof -
  let ?created = "UserSerializer_create (next_user d) (rq_data req)"
  have key: "u_id ?created = next_user d"
    by (simp add: UserSerializer_create_def)
  from assms(4) have "\<forall>x \<in> set (users d). u_id x \<noteq> u_id ?created"
    unfolding key by (auto simp: seq_fresh_def)
  then have "save_row u_id (?created\<lparr>password := make_password dj (Some pw)\<rparr>)
               (users d @ [?created]) =
             users d @ [?created\<lparr>password := make_password dj (Some pw)\<rparr>]"
    by (rule save_row_appended) simp
  with assms show ?thesis
    by (simp add: UserView_post_def Let_def)
qed

text \<open>
  C6. Sign-up by an anonymous caller with valid data is to answer 201 and never to
  leave the submitted password in the row. A body whose password is the JSON number
  12345 is valid: the serializer reads the number as the text "12345" and the first save
  stores it. \<^verbatim>\<open>set_password\<close> is then given the number itself and raises \<^verbatim>\<open>TypeError\<close>,
  so the request fails and the row stays with the password as it was submitted.
\<close>

theorem signup_number_password_stays_plain:
  "UserSerializer_is_valid toy_django market None False
     (signup\<lparr>ud_password := Given (Number ''12345'')\<rparr>) \<and>
   UserView_post toy_django
     (request_of AnonymousUser Map.empty (signup\<lparr>ud_password := Given (Number ''12345'')\<rparr>))
     market =
     Inl (TypeError,
          market\<lparr>users := [alice, bob, carol, root, erin,
              \<lparr>u_id = 6, username = ''frank'', email = [], password = ''12345'',
               first_name = [], last_name = [], user_type = Some ''freelancer'',
               u_category = Some 2, phone_number = None, resume = None, is_staff = False\<rparr>],
            next_user := 7\<rparr>)"
  by (simp add: UserView_post_def UserSerializer_is_valid_def UserSerializer_create_def
      unique_violation_def unique_among_def USER_TYPE_CHOICES_def UnicodeUsernameValidator_def
      word_char_def signup_def blank_form_def toy_django_def fixture_defs validation_defs)

text \<open>
  The same sign-up with a text for a password succeeds, and a sign-up that sends a blank
  phone number, as \<open>bob\<close> did before, is refused by the table.
\<close>

lemma signup_frank_201:
  "UserView_post toy_django (request_of AnonymousUser Map.empty signup) market =
     Inr (Response ''User created successfully! Now you have an account.'' 201,
          market\<lparr>users := [alice, bob, carol, root, erin,
              \<lparr>u_id = 6, username = ''frank'', email = [], password = ''toy$terc3s'',
               first_name = [], last_name = [], user_type = Some ''freelancer'',
               u_category = Some 2, phone_number = None, resume = None, is_staff = False\<rparr>],
            next_user := 7\<rparr>)"
  by (simp add: UserView_post_def UserSerializer_is_valid_def UserSerializer_create_def
      unique_violation_def unique_among_def USER_TYPE_CHOICES_def UnicodeUsernameValidator_def
      word_char_def signup_def blank_form_def toy_django_def fixture_defs validation_defs
      save_row_def)

lemma signup_blank_phone_integrity_error:
  "UserSerializer_is_valid toy_django market None False
     (signup\<lparr>ud_phone_number := Given (Text [])\<rparr>) \<and>
   UserView_post toy_django
     (request_of AnonymousUser Map.empty (signup\<lparr>ud_phone_number := Given (Text [])\<rparr>)) market =
     Inl (IntegrityError, market)"
  by (simp add: UserView_post_def UserSerializer_is_valid_def UserSerializer_create_def
      unique_violation_def unique_among_def USER_TYPE_CHOICES_def UnicodeUsernameValidator_def
      word_char_def signup_def blank_form_def toy_django_def fixture_defs validation_defs)

text \<open>
  The \<^verbatim>\<open>LIKE\<close> of \<^verbatim>\<open>icontains\<close> on texts without NUL: the lower-cased needle is a
  contiguous piece of the lower-cased text. A list of patterns that are not too long
  keeps the rows that match all of them.
\<close>

lemma starts_with_iff: "starts_with needle hay \<longleftrightarrow> (\<exists>post. hay = needle @ post)"
  by (induction needle hay rule: starts_with.induct) auto

lemma contains_iff: "contains needle hay \<longleftrightarrow> (\<exists>pre post. hay = pre @ needle @ post)"
proof (induction hay)
  case Nil
  then show ?case by auto
next
  case (Cons d ds)
  show ?case
  proof
    assume "contains needle (d # ds)"
    then consider "starts_with needle (d # ds)" | "contains needle ds" by auto
    then show "\<exists>pre post. d # ds = pre @ needle @ post"
    proof cases
      case 1
      then obtain post where "d # ds = [] @ needle @ post"
        by (auto simp: starts_with_iff)
      then show ?thesis by blast
    next
      case 2
      with Cons.IH obtain pre post where "ds = pre @ needle @ post" by auto
      then have "d # ds = (d # pre) @ needle @ post" by simp
      then show ?thesis by blast
    qed
  next
    assume "\<exists>pre post. d # ds = pre @ needle @ post"
    then obtain pre post where split: "d # ds = pre @ needle @ post" by auto
    show "contains needle (d # ds)"
    proof (cases pre)
      case Nil
      with split have "starts_with needle (d # ds)"
        by (auto simp: starts_with_iff)
      then show ?thesis by simp
    next
      case (Cons e es)
      with split have "ds = es @ needle @ post" by simp
      with Cons.IH have "contains needle ds" by blast
      then show ?thesis by simp
    qed
  qed
qed

lemma until_nul_clean: "CHR 0x00 \<notin> set s \<Longrightarrow> until_nul s = s"
  by (auto simp: until_nul_def takeWhile_eq_all_conv)

lemma icontains_iff:
  assumes "CHR 0x00 \<notin> set needle" and "CHR 0x00 \<notin> set hay"
  shows "icontains needle hay \<longleftrightarrow> (\<exists>pre post. lower hay = pre @ lower needle @ post)"
  using assms by (simp add: icontains_def contains_iff until_nul_clean)

lemma contains_empty: "contains [] hay"
  by (cases hay) simp_all

lemma like_all_short:
  assumes "\<forall>n \<in> set ns. pattern_bytes n \<le> SQLITE_MAX_LIKE_PATTERN_LENGTH"
  shows "like_all ns rows = Inr (filter (\<lambda>p. \<forall>n \<in> set ns. icontains n (p_name p)) rows)"
  using assms
proof (induction ns arbitrary: rows)
  case Nil
  then show ?case by simp
next
  case (Cons n ns)
  then have "like_all (n # ns) rows = like_all ns (filter (\<lambda>p. icontains n (p_name p)) rows)"
    by (simp add: not_less)
  also have "\<dots> = Inr (filter (\<lambda>p. \<forall>m \<in> set ns. icontains m (p_name p))
                       (filter (\<lambda>p. icontains n (p_name p)) rows))"
    using Cons by simp
  also have "\<dots> = Inr (filter (\<lambda>p. \<forall>m \<in> set (n # ns). icontains m (p_name p)) rows)"
    by (auto intro: filter_cong)
  finally show ?case .
qed

text \<open>
  C7, as the code has it. When the \<^verbatim>\<open>category\<close> parameter, if it is given, is a
  numeral of at most 64 bits, and the \<^verbatim>\<open>search\<close> and \<^verbatim>\<open>name\<close> texts make patterns of
  at most 50000 bytes, \<^verbatim>\<open>ProjectsView.get\<close> hands to the paginator exactly the projects
  that pass every narrowing the query string asks for, each as often as the table holds
  it: \<^verbatim>\<open>search\<close> and the \<^verbatim>\<open>name\<close> filter keep the projects whose name contains the
  text (the filter's text trimmed), ignoring the case of ASCII letters, and
  \<^verbatim>\<open>category\<close> keeps the projects whose category has that number; with no parameter
  all projects pass.
\<close>

theorem projects_get_narrowing:
  "((\<forall>c. form_clean (rq_GET req ''category'') = Some c \<longrightarrow>
         (\<exists>k. py_int c = Some k \<and> sqlite_integer k)) \<longrightarrow>
   (\<forall>s. rq_GET req ''search'' = Some s \<longrightarrow>
         pattern_bytes s \<le> SQLITE_MAX_LIKE_PATTERN_LENGTH) \<longrightarrow>
   (\<forall>n. form_clean (rq_GET req ''name'') = Some n \<longrightarrow>
         pattern_bytes n \<le> SQLITE_MAX_LIKE_PATTERN_LENGTH) \<longrightarrow>
   (\<exists>rows. ProjectsView_get paginator req d = Inr (paginator rows (rq_GET req)) \<and>
      mset rows =
        filter_mset (\<lambda>p.
           (\<forall>s. rq_GET req ''search'' = Some s \<longrightarrow> s \<noteq> [] \<longrightarrow> icontains s (p_name p)) \<and>
           (\<forall>n. form_clean (rq_GET req ''name'') = Some n \<longrightarrow> icontains n (p_name p)) \<and>
           (\<forall>c. form_clean (rq_GET req ''category'') = Some c \<longrightarrow>
                  py_int c = Some (p_category p)))
          (mset (projects d)))) \<and>
   (\<forall>needle hay. CHR 0x00 \<notin> set needle \<longrightarrow> CHR 0x00 \<notin> set hay \<longrightarrow>
      icontains needle hay = (\<exists>pre post. lower hay = pre @ lower needle @ post))"
proof (intro conjI impI allI)
  fix needle hay :: string
  assume "CHR 0x00 \<notin> set needle" and "CHR 0x00 \<notin> set hay"
  then show "icontains needle hay = (\<exists>pre post. lower hay = pre @ lower needle @ post)"
    by (rule icontains_iff)
next
  assume numeric: "\<forall>c. form_clean (rq_GET req ''category'') = Some c \<longrightarrow>
         (\<exists>k. py_int c = Some k \<and> sqlite_integer k)"
    and short_search: "\<forall>s. rq_GET req ''search'' = Some s \<longrightarrow>
         pattern_bytes s \<le> SQLITE_MAX_LIKE_PATTERN_LENGTH"
    and short_name: "\<forall>n. form_clean (rq_GET req ''name'') = Some n \<longrightarrow>
         pattern_bytes n \<le> SQLITE_MAX_LIKE_PATTERN_LENGTH"
  let ?S = "\<lambda>p. \<forall>s. rq_GET req ''search'' = Some s \<longrightarrow> s \<noteq> [] \<longrightarrow> icontains s (p_name p)"
  let ?N = "\<lambda>p. \<forall>n. form_clean (rq_GET req ''name'') = Some n \<longrightarrow> icontains n (p_name p)"
  let ?C = "\<lambda>p. \<forall>c. form_clean (rq_GET req ''category'') = Some c \<longrightarrow>
                        py_int c = Some (p_category p)"
  define searched where "searched =
    (case rq_GET req ''search'' of
       None \<Rightarrow> \<lparr>likes = [], category_is = None\<rparr>
     | Some s \<Rightarrow> if truthy (rq_GET req ''search'')
                 then \<lparr>likes = [], category_is = None\<rparr>
                        \<lparr>likes := likes \<lparr>likes = [], category_is = None\<rparr> @ [s]\<rparr>
                 else \<lparr>likes = [], category_is = None\<rparr>)"
  define named where "named =
    (case form_clean (rq_GET req ''name'') of
       None \<Rightarrow> searched
     | Some n \<Rightarrow> searched\<lparr>likes := likes searched @ [n]\<rparr>)"
  have named_cat: "category_is named = None"
    by (auto simp: named_def searched_def split: option.splits)
  have short: "\<forall>n \<in> set (likes named). pattern_bytes n \<le> SQLITE_MAX_LIKE_PATTERN_LENGTH"
    using short_search short_name
    by (auto simp: named_def searched_def split: option.splits if_splits)
  have meaning: "(\<forall>n \<in> set (likes named). icontains n (p_name p)) \<longleftrightarrow> ?S p \<and> ?N p" for p
    by (auto simp: named_def searched_def truthy_def split: option.splits if_splits)
  have run: "like_all (likes named) rows = Inr (filter (\<lambda>p. ?S p \<and> ?N p) rows)" for rows
    using like_all_short [OF short] by (simp add: meaning cong: filter_cong)
  have "\<exists>rows. (case ProjectsFilter_qs (rq_GET req) searched of
                   Inl e \<Rightarrow> Inl e
                 | Inr qs \<Rightarrow> run_query qs (projects d)) = Inr rows \<and>
               rows = filter (\<lambda>p. ?S p \<and> ?N p \<and> ?C p) (projects d)"
  proof (cases "form_clean (rq_GET req ''category'')")
    case None
    then show ?thesis
      using run named_cat
      by (simp add: ProjectsFilter_qs_def Let_def run_query_def flip: named_def)
  next
    case (Some c)
    with numeric obtain k where k: "py_int c = Some k" "sqlite_integer k" by auto
    have "filter (\<lambda>p. ?S p \<and> ?N p) (filter (\<lambda>p. p_category p = k) (projects d)) =
            filter (\<lambda>p. ?S p \<and> ?N p \<and> ?C p) (projects d)"
      using Some k by (auto intro: filter_cong)
    with Some k run show ?thesis
      by (simp add: ProjectsFilter_qs_def Let_def run_query_def flip: named_def)
  qed
  then obtain rows where
    "(case ProjectsFilter_qs (rq_GET req) searched of
        Inl e \<Rightarrow> Inl e
      | Inr qs \<Rightarrow> run_query qs (projects d)) = Inr rows"
    and rows: "rows = filter (\<lambda>p. ?S p \<and> ?N p \<and> ?C p) (projects d)"
    by blast
  then have "ProjectsView_get paginator req d = Inr (paginator rows (rq_GET req))"
    by (auto simp add: ProjectsView_get_def Let_def simp flip: searched_def split: sum.splits)
  moreover from rows have "mset rows = filter_mset (\<lambda>p. ?S p \<and> ?N p \<and> ?C p) (mset (projects d))"
    by simp
  ultimately show "\<exists>rows. ProjectsView_get paginator req d = Inr (paginator rows (rq_GET req)) \<and>
      mset rows = filter_mset (\<lambda>p. ?S p \<and> ?N p \<and> ?C p) (mset (projects d))"
    by blast
qed

theorem projects_get_witness:
  "(\<exists>rows. ProjectsView_get one_page (request_of AnonymousUser Map.empty ()) catalogue =
            Inr rows \<and> mset rows = {#logo_project, blog_project#}) \<and>
   ProjectsView_get one_page (request_of AnonymousUser [''search'' \<mapsto> ''POST''] ()) catalogue =
     Inr [blog_project] \<and>
   ProjectsView_get one_page (request_of AnonymousUser [''name'' \<mapsto> '' logo ''] ()) catalogue =
     Inr [logo_project] \<and>
   ProjectsView_get one_page (request_of AnonymousUser [''category'' \<mapsto> ''2''] ()) catalogue =
     Inr [blog_project]"
  using
    projects_get_narrowing [of "request_of AnonymousUser Map.empty ()" one_page catalogue]
    projects_get_narrowing
      [of "request_of AnonymousUser [''search'' \<mapsto> ''POST''] ()" one_page catalogue]
    projects_get_narrowing
      [of "request_of AnonymousUser [''name'' \<mapsto> '' logo ''] ()" one_page catalogue]
    projects_get_narrowing
      [of "request_of AnonymousUser [''category'' \<mapsto> ''2''] ()" one_page catalogue]
  by (simp add: fixture_defs catalogue_def blog_project_def one_page_def form_clean_def
      py_int_defs strip_def py_isspace_def icontains_def until_nul_def lower_def
      lower_char_def pattern_bytes_def SQLITE_MAX_LIKE_PATTERN_LENGTH_def sqlite_integer_def)

text \<open>
  What the query does outside those bounds: a \<^verbatim>\<open>category\<close> that is not a numeral, one
  beyond 64 bits, and a pattern that is too long for a table with rows.
\<close>

lemma projects_get_bad_category:
  assumes "form_clean (rq_GET req ''category'') = Some c" and "py_int c = None"
  shows "ProjectsView_get paginator req d = Inl ValueError"
  using assms by (simp add: ProjectsView_get_def ProjectsFilter_qs_def Let_def)

lemma projects_get_huge_category:
  assumes "form_clean (rq_GET req ''category'') = Some c" and "py_int c = Some k"
    and "\<not> sqlite_integer k"
  shows "ProjectsView_get paginator req d = Inl OverflowError"
  using assms
  by (simp add: ProjectsView_get_def ProjectsFilter_qs_def run_query_def Let_def)

lemma projects_get_long_search:
  assumes "rq_GET req ''search'' = Some s"
    and "SQLITE_MAX_LIKE_PATTERN_LENGTH < pattern_bytes s"
    and "form_clean (rq_GET req ''category'') = None" and "projects d \<noteq> []"
  shows "ProjectsView_get paginator req d = Inl OperationalError"
proof -
  from assms(2) have "s \<noteq> []"
    by (auto simp: pattern_bytes_def SQLITE_MAX_LIKE_PATTERN_LENGTH_def)
  with assms show ?thesis
    by (cases "form_clean (rq_GET req ''name'')")
       (simp_all add: ProjectsView_get_def ProjectsFilter_qs_def run_query_def Let_def
          truthy_def)
qed

lemma projects_get_search_nul:
  "ProjectsView_get one_page (request_of AnonymousUser [''search'' \<mapsto> [CHR 0x00]] ())
     catalogue = Inr [logo_project, blog_project]"
  by (simp add: ProjectsView_get_def ProjectsFilter_qs_def run_query_def form_clean_def
      truthy_def fixture_defs catalogue_def blog_project_def one_page_def icontains_def
      until_nul_def lower_def pattern_bytes_def SQLITE_MAX_LIKE_PATTERN_LENGTH_def)

text \<open>
  C7 as the specification words it asks the \<^verbatim>\<open>name\<close> filter for an exact match. The
  query \<^verbatim>\<open>?name=logo\<close> returns the project named "Logo Design".
\<close>

theorem projects_get_name_not_exact:
  "ProjectsView_get one_page (request_of AnonymousUser [''name'' \<mapsto> ''logo''] ()) catalogue =
     Inr [logo_project] \<and>
   p_name logo_project \<noteq> ''logo''"
  by (simp add: ProjectsView_get_def ProjectsFilter_qs_def run_query_def form_clean_def
      truthy_def fixture_defs catalogue_def blog_project_def one_page_def strip_def
      py_isspace_def icontains_def until_nul_def lower_def lower_char_def pattern_bytes_def
      SQLITE_MAX_LIKE_PATTERN_LENGTH_def)

text \<open>
  C8. Deleting a category deletes every skill and every project that refers to it,
  deleting a user deletes every project and every sample work that user owns, and all
  other rows stay, in their order. \<^verbatim>\<open>UserView.delete\<close> with the caller's own id is such
  a deletion.
\<close>

theorem cascade_on_delete:
  "(Category_delete c d = Inr d' \<longrightarrow>
      categories d' = filter (\<lambda>x. c_id x \<noteq> c) (categories d) \<and>
      skills d' = filter (\<lambda>s. s_category s \<noteq> c) (skills d) \<and>
      projects d' = filter (\<lambda>p. p_category p \<noteq> c) (projects d) \<and>
      users d' = users d \<and> sampleworks d' = sampleworks d) \<and>
   (users (User_delete k d) = filter (\<lambda>u. u_id u \<noteq> k) (users d) \<and>
    projects (User_delete k d) = filter (\<lambda>p. p_user p \<noteq> k) (projects d) \<and>
    sampleworks (User_delete k d) = filter (\<lambda>w. sw_user w \<noteq> k) (sampleworks d) \<and>
    categories (User_delete k d) = categories d \<and> skills (User_delete k d) = skills d) \<and>
   (rq_user req = Authenticated u \<longrightarrow> rq_GET req ''user_id'' = Some t \<longrightarrow>
      py_int t = Some (u_id u) \<longrightarrow> u_id u \<in> u_id ` set (users d) \<longrightarrow>
      UserView_delete req d =
        Inr (Response ''User deleted successfully!'' 204, User_delete (u_id u) d))"
proof (intro conjI impI)
  assume auth: "rq_user req = Authenticated u" and q: "rq_GET req ''user_id'' = Some t"
    and own: "py_int t = Some (u_id u)" and stored: "u_id u \<in> u_id ` set (users d)"
  from stored obtain r where "find (\<lambda>r. u_id r = u_id u \<and> True) (users d) = Some r"
    using find_key_present [of "u_id u" u_id "users d"] by auto
  then have "objects_get u_id (Some t) (\<lambda>x. True) (users d) = Inr (Some r)"
    using own by (simp add: objects_get_def)
  moreover have "truthy (Some t)"
    using py_int_nonempty [OF own] by (simp add: truthy_def)
  ultimately show "UserView_delete req d =
      Inr (Response ''User deleted successfully!'' 204, User_delete (u_id u) d)"
    using auth q own by (simp add: UserView_delete_def)
qed (auto simp: Category_delete_def User_delete_def split: if_splits)

theorem cascade_witness:
  "Category_delete 2
     (market\<lparr>skills := skills market @
        [\<lparr>s_id = 2, s_name = ''Copywriting'', s_category = 2, s_created_at = 4\<rparr>]\<rparr>) =
     Inr (market\<lparr>categories := [\<lparr>c_id = 1, c_name = ''Design'', c_created_at = 1\<rparr>]\<rparr>) \<and>
   skills (market\<lparr>categories := [\<lparr>c_id = 1, c_name = ''Design'', c_created_at = 1\<rparr>]\<rparr>) =
     [\<lparr>s_id = 1, s_name = ''Illustration'', s_category = 1, s_created_at = 3\<rparr>] \<and>
   UserView_delete (request_of (Authenticated bob) [''user_id'' \<mapsto> ''2''] ()) market =
     Inr (Response ''User deleted successfully!'' 204,
          market\<lparr>users := [alice, carol, root, erin], sampleworks := []\<rparr>)"
proof -
  have gone: "Category_delete 2
     (market\<lparr>skills := skills market @
        [\<lparr>s_id = 2, s_name = ''Copywriting'', s_category = 2, s_created_at = 4\<rparr>]\<rparr>) =
     Inr (market\<lparr>categories := [\<lparr>c_id = 1, c_name = ''Design'', c_created_at = 1\<rparr>]\<rparr>)"
    by (simp add: Category_delete_def fixture_defs)
  have kept: "skills (market\<lparr>categories := [\<lparr>c_id = 1, c_name = ''Design'', c_created_at = 1\<rparr>]\<rparr>) =
     [\<lparr>s_id = 1, s_name = ''Illustration'', s_category = 1, s_created_at = 3\<rparr>]"
    using gone cascade_on_delete
      [of 2 "market\<lparr>skills := skills market @
        [\<lparr>s_id = 2, s_name = ''Copywriting'', s_category = 2, s_created_at = 4\<rparr>]\<rparr>"
        "market\<lparr>categories := [\<lparr>c_id = 1, c_name = ''Design'', c_created_at = 1\<rparr>]\<rparr>"]
    by (simp add: fixture_defs)
  have "UserView_delete (request_of (Authenticated bob) [''user_id'' \<mapsto> ''2''] ())
      market =
     Inr (Response ''User deleted successfully!'' 204,
          market\<lparr>users := [alice, carol, root, erin], sampleworks := []\<rparr>)"
    using cascade_on_delete
      [where d = market and u = bob and t = "''2''" and k = 2
         and req = "request_of (Authenticated bob) [''user_id'' \<mapsto> ''2''] ()"]
    by (simp add: fixture_defs py_int_defs User_delete_def)
  with gone kept show ?thesis by simp
qed

text \<open>
  The PUT handlers on a body that fails validation, once the caller, the id and the
  ownership have let the request through to the serializer.
\<close>

lemma project_put_invalid:
  assumes "pk_unique d" and "p \<in> set (projects d)" and "p_user p = u_id u"
    and "rq_user req = Authenticated u"
    and "rq_GET req ''project_id'' = Some t" and "py_int t = Some (p_id p)"
    and "\<not> ProjectSerializer_is_valid d True (rq_data req)"
  shows "ProjectsView_put req d = Inr (Response ''Invalid data'' 400, d)"
proof -
  from assms(1) have dist: "distinct (map p_id (projects d))"
    by (simp add: pk_unique_def)
  have "objects_get p_id (Some t) (\<lambda>p. p_user p = u_id u) (projects d) = Inr (Some p)"
    using objects_get_hit [OF dist assms(2) assms(6), of "\<lambda>p. p_user p = u_id u"] assms(3)
    by simp
  with assms(4,5,7) show ?thesis
    by (simp add: ProjectsView_put_def)
qed

lemma samplework_put_invalid:
  assumes "pk_unique d" and "w \<in> set (sampleworks d)" and "sw_user w = u_id u"
    and "rq_user req = Authenticated u"
    and "rq_GET req ''sample_project_id'' = Some t" and "py_int t = Some (sw_id w)"
    and "\<not> SampleWorkSerializer_is_valid d True (rq_data req)"
  shows "SampleWorkView_put req d = Inr (Response ''Invalid data'' 400, d)"
proof -
  from assms(1) have dist: "distinct (map sw_id (sampleworks d))"
    by (simp add: pk_unique_def)
  have "objects_get sw_id (Some t) (\<lambda>w. True) (sampleworks d) = Inr (Some w)"
    using objects_get_hit [OF dist assms(2) assms(6), of "\<lambda>w. True"]
    by simp
  moreover have "truthy (Some t)"
    using py_int_nonempty [OF assms(6)] by (simp add: truthy_def)
  ultimately show ?thesis
    using assms(3,4,5,7) by (simp add: SampleWorkView_put_def)
qed

lemma user_put_invalid:
  assumes "u_id u \<in> u_id ` set (users d)"
    and "rq_user req = Authenticated u"
    and "rq_GET req ''user_id'' = Some t" and "py_int t = Some (u_id u)"
    and "\<not> UserSerializer_is_valid dj d (Some u) True (rq_data req)"
  shows "UserView_put dj req d = Inr (Response ''Invalid data'' 400, d)"
proof -
  from assms(1) obtain r where "find (\<lambda>r. u_id r = u_id u \<and> True) (users d) = Some r"
    using find_key_present [of "u_id u" u_id "users d"] by auto
  then have "objects_get u_id (Some t) (\<lambda>x. True) (users d) = Inr (Some r)"
    using assms(4) by (simp add: objects_get_def)
  moreover have "truthy (Some t)"
    using py_int_nonempty [OF assms(4)] by (simp add: truthy_def)
  ultimately show ?thesis
    using assms(2,3,4,5) by (simp add: UserView_put_def)
qed

text \<open>
  Whatever a PUT answers or raises, a body that fails validation never changes the
  database.
\<close>

lemma project_put_invalid_unchanged:
  assumes "\<not> ProjectSerializer_is_valid d True (rq_data req)"
  shows "db_after (ProjectsView_put req d) = d"
  using assms
  by (auto simp: ProjectsView_put_def split: caller.splits sum.splits option.splits if_splits)

lemma samplework_put_invalid_unchanged:
  assumes "\<not> SampleWorkSerializer_is_valid d True (rq_data req)"
  shows "db_after (SampleWorkView_put req d) = d"
  using assms
  by (auto simp: SampleWorkView_put_def split: caller.splits sum.splits option.splits if_splits)

lemma user_put_invalid_unchanged:
  assumes "\<And>u. rq_user req = Authenticated u \<Longrightarrow> \<not> UserSerializer_is_valid dj d (Some u) True (rq_data req)"
  shows "db_after (UserView_put dj req d) = d"
  using assms
  by (auto simp: UserView_put_def Let_def split: caller.splits sum.splits option.splits if_splits)

text \<open>
  C9. A PUT whose body fails the serializer's validation is answered 400 and leaves the
  database, and with it the targeted record, as it was: for a project and a sample work
  of the caller, and for the caller's own user record.
\<close>

theorem put_invalid_400_unchanged:
  "(pk_unique d \<longrightarrow> p \<in> set (projects d) \<longrightarrow> p_user p = u_id u \<longrightarrow>
      rq_user preq = Authenticated u \<longrightarrow> rq_GET preq ''project_id'' = Some t \<longrightarrow>
      py_int t = Some (p_id p) \<longrightarrow> \<not> ProjectSerializer_is_valid d True (rq_data preq) \<longrightarrow>
      ProjectsView_put preq d = Inr (Response ''Invalid data'' 400, d)) \<and>
   (pk_unique d \<longrightarrow> w \<in> set (sampleworks d) \<longrightarrow> sw_user w = u_id v \<longrightarrow>
      rq_user wreq = Authenticated v \<longrightarrow> rq_GET wreq ''sample_project_id'' = Some t' \<longrightarrow>
      py_int t' = Some (sw_id w) \<longrightarrow> \<not> SampleWorkSerializer_is_valid d True (rq_data wreq) \<longrightarrow>
      SampleWorkView_put wreq d = Inr (Response ''Invalid data'' 400, d)) \<and>
   (u_id a \<in> u_id ` set (users d) \<longrightarrow>
      rq_user ureq = Authenticated a \<longrightarrow> rq_GET ureq ''user_id'' = Some t'' \<longrightarrow>
      py_int t'' = Some (u_id a) \<longrightarrow> \<not> UserSerializer_is_valid dj d (Some a) True (rq_data ureq) \<longrightarrow>
      UserView_put dj ureq d = Inr (Response ''Invalid data'' 400, d))"
  using project_put_invalid [of d p u preq t] samplework_put_invalid [of d w v wreq t']
    user_put_invalid [of a d ureq t'' dj]
  by blast

theorem put_invalid_witness:
  "ProjectsView_put (request_of (Authenticated alice) [''project_id'' \<mapsto> ''1''] overpriced)
     market = Inr (Response ''Invalid data'' 400, market) \<and>
   SampleWorkView_put (request_of (Authenticated bob) [''sample_project_id'' \<mapsto> ''1''] nameless)
     market = Inr (Response ''Invalid data'' 400, market) \<and>
   UserView_put toy_django (request_of (Authenticated carol) [''user_id'' \<mapsto> ''3''] name_taken)
     market = Inr (Response ''Invalid data'' 400, market)"
  using put_invalid_400_unchanged
    [where d = market and p = logo_project and u = alice and t = "''1''"
       and preq = "request_of (Authenticated alice) [''project_id'' \<mapsto> ''1''] overpriced"
       and w = portfolio and v = bob and t' = "''1''"
       and wreq = "request_of (Authenticated bob) [''sample_project_id'' \<mapsto> ''1''] nameless"
       and a = carol and t'' = "''3''"
       and ureq = "request_of (Authenticated carol) [''user_id'' \<mapsto> ''3''] name_taken"
       and dj = toy_django]
  by (simp add: fixture_defs py_int_defs validation_defs pk_unique_def
      overpriced_def unchanged_def nameless_def untouched_def name_taken_def blank_form_def
      ProjectSerializer_is_valid_def SampleWorkSerializer_is_valid_def
      UserSerializer_is_valid_def unique_among_def UnicodeUsernameValidator_def word_char_def)

text \<open>
  Bodies that the fields' validators refuse: a name that holds a NUL character, a user
  name with a space in it, and an e-mail address that the framework's validator rejects.
\<close>

lemma samplework_put_nul_name_400:
  "SampleWorkView_put
     (request_of (Authenticated bob) [''sample_project_id'' \<mapsto> ''1'']
        (untouched\<lparr>swd_name := Given (Text [CHR ''a'', CHR 0x00])\<rparr>)) market =
     Inr (Response ''Invalid data'' 400, market)"
  by (simp add: SampleWorkView_put_def SampleWorkSerializer_is_valid_def objects_get_def
      truthy_def untouched_def fixture_defs py_int_defs validation_defs)

lemma user_put_bad_name_400:
  "UserView_put dj
     (request_of (Authenticated carol) [''user_id'' \<mapsto> ''3'']
        (blank_form\<lparr>ud_username := Given (Text ''bad name!'')\<rparr>)) market =
     Inr (Response ''Invalid data'' 400, market)"
  by (simp add: UserView_put_def UserSerializer_is_valid_def objects_get_def truthy_def
      blank_form_def fixture_defs py_int_defs validation_defs UnicodeUsernameValidator_def
      word_char_def)

lemma user_put_bad_email_400:
  assumes "\<not> EmailValidator dj ''nowhere''"
  shows "UserView_put dj
     (request_of (Authenticated carol) [''user_id'' \<mapsto> ''3'']
        (blank_form\<lparr>ud_email := Given (Text ''nowhere'')\<rparr>)) market =
     Inr (Response ''Invalid data'' 400, market)"
  using assms
  by (simp add: UserView_put_def UserSerializer_is_valid_def objects_get_def truthy_def
      blank_form_def fixture_defs py_int_defs validation_defs)

text \<open>
  The reference from a user to a category under every operation: the project and
  sample-work handlers leave both tables alone, the user handlers store only a category
  that the serializer found, and a category is deleted only when no user refers to it.
\<close>

lemma project_handlers_keep_users:
  "users (db_after (ProjectsView_post preq d)) = users d \<and>
   categories (db_after (ProjectsView_post preq d)) = categories d"
  "users (db_after (ProjectsView_put preq d)) = users d \<and>
   categories (db_after (ProjectsView_put preq d)) = categories d"
  "users (db_after (ProjectsView_delete req d)) = users d \<and>
   categories (db_after (ProjectsView_delete req d)) = categories d"
  by (auto simp: ProjectsView_post_def ProjectsView_put_def ProjectsView_delete_def
      split: caller.splits sum.splits option.splits if_splits)

lemma samplework_handlers_keep_users:
  "users (db_after (SampleWorkView_post wreq d)) = users d \<and>
   categories (db_after (SampleWorkView_post wreq d)) = categories d"
  "users (db_after (SampleWorkView_put wreq d)) = users d \<and>
   categories (db_after (SampleWorkView_put wreq d)) = categories d"
  "users (db_after (SampleWorkView_delete req d)) = users d \<and>
   categories (db_after (SampleWorkView_delete req d)) = categories d"
  by (auto simp: SampleWorkView_post_def SampleWorkView_put_def SampleWorkView_delete_def
      split: caller.splits sum.splits option.splits if_splits)

lemma user_categories_exist_iff:
  "user_categories_exist d \<longleftrightarrow>
     (\<forall>u \<in> set (users d). \<forall>c. u_category u = Some c \<longrightarrow> c \<in> c_id ` set (categories d))"
  by (auto simp: user_categories_exist_def split: option.splits)

lemma same_tables_keep_invariant:
  "users d' = users d \<and> categories d' = categories d \<Longrightarrow>
   user_categories_exist d \<Longrightarrow> user_categories_exist d'"
  by (simp add: user_categories_exist_iff)

lemma validated_category_exists:
  assumes "UserSerializer_is_valid dj d instance partial dat"
    and "nullable_or keep id (ud_category dat) = Some c"
  shows "c \<in> c_id ` set (categories d) \<or> (keep = Some c \<and> ud_category dat = Absent)"
  using assms
  by (cases "ud_category dat") (auto simp: UserSerializer_is_valid_def)

lemma user_delete_keeps_invariant:
  "user_categories_exist d \<Longrightarrow> user_categories_exist (User_delete k d)"
  by (auto simp: user_categories_exist_iff User_delete_def)

lemma category_delete_keeps_invariant:
  assumes "user_categories_exist d" and "Category_delete c d = Inr d'"
  shows "user_categories_exist d'"
proof -
  from assms(2) have none: "\<forall>u \<in> set (users d). u_category u \<noteq> Some c"
    and d': "d' = d\<lparr>categories := filter (\<lambda>x. c_id x \<noteq> c) (categories d),
                  skills := filter (\<lambda>s. s_category s \<noteq> c) (skills d),
                  projects := filter (\<lambda>p. p_category p \<noteq> c) (projects d)\<rparr>"
    by (auto simp: Category_delete_def split: if_splits)
  show ?thesis
    unfolding user_categories_exist_iff
  proof (intro ballI allI impI)
    fix u k assume u: "u \<in> set (users d')" and k: "u_category u = Some k"
    from u d' have "u \<in> set (users d)" by simp
    with assms(1) k none have "k \<in> c_id ` set (categories d)" and "k \<noteq> c"
      by (auto simp: user_categories_exist_iff)
    with d' show "k \<in> c_id ` set (categories d')"
      by auto
  qed
qed

text \<open>
  Sign-up leaves the database as it was, or with the new row: as the serializer built
  it when \<^verbatim>\<open>set_password\<close> raises, with the hashed password otherwise. Either row refers
  to the category that the serializer found.
\<close>

lemma user_post_keeps_invariant:
  assumes "user_categories_exist d"
  shows "user_categories_exist (db_after (UserView_post dj req d))"
proof (cases "is_authenticated (rq_user req) \<or>
              \<not> UserSerializer_is_valid dj d None False (rq_data req) \<or>
              unique_violation (UserSerializer_create (next_user d) (rq_data req)) (users d)")
  case True
  then have "db_after (UserView_post dj req d) = d"
    by (auto simp: UserView_post_def Let_def)
  with assms show ?thesis by simp
next
  case False
  let ?created = "UserSerializer_create (next_user d) (rq_data req)"
  let ?d' = "db_after (UserView_post dj req d)"
  from False have cats: "categories ?d' = categories d"
    by (auto simp: UserView_post_def Let_def split: sum.splits)
  have rows: "\<forall>u \<in> set (users ?d'). u \<in> set (users d) \<or> u_category u = u_category ?created"
  proof (cases "set_password dj ?created (ud_password (rq_data req))")
    case (Inl e)
    with False show ?thesis
      by (auto simp: UserView_post_def Let_def)
  next
    case (Inr hashed)
    then have "u_category hashed = u_category ?created"
      by (cases "(dj, ?created, ud_password (rq_data req))" rule: set_password.cases) auto
    with Inr False show ?thesis
      by (auto simp: UserView_post_def Let_def save_row_def split: if_splits)
  qed
  have new: "\<And>c. u_category ?created = Some c \<Longrightarrow> c \<in> c_id ` set (categories d)"
    using False validated_category_exists [of dj d None False "rq_data req" None]
    by (auto simp: UserSerializer_create_def)
  show ?thesis
    unfolding user_categories_exist_iff
  proof (intro ballI allI impI)
    fix u c assume u: "u \<in> set (users ?d')" and c: "u_category u = Some c"
    from u rows have "u \<in> set (users d) \<or> u_category u = u_category ?created"
      by blast
    then have "c \<in> c_id ` set (categories d)"
      using c new assms by (auto simp: user_categories_exist_iff)
    with cats show "c \<in> c_id ` set (categories ?d')" by simp
  qed
qed

lemma user_put_keeps_invariant:
  assumes "user_categories_exist d" and "known_caller (rq_user req) d"
  shows "user_categories_exist (db_after (UserView_put dj req d))"
proof (cases "db_after (UserView_put dj req d) = d")
  case True
  with assms(1) show ?thesis by simp
next
  case False
  then obtain u where u: "rq_user req = Authenticated u"
    and valid: "UserSerializer_is_valid dj d (Some u) True (rq_data req)"
    and d': "db_after (UserView_put dj req d) =
               d\<lparr>users := save_row u_id (UserSerializer_update u (rq_data req)) (users d)\<rparr>"
    by (auto simp: UserView_put_def Let_def
        split: caller.splits sum.splits option.splits if_splits)
  let ?saved = "UserSerializer_update u (rq_data req)"
  from u assms(2) have stored: "u \<in> set (users d)"
    by (simp add: known_caller_def)
  have new: "\<And>c. u_category ?saved = Some c \<Longrightarrow> c \<in> c_id ` set (categories d)"
    using valid validated_category_exists [of dj d "Some u" True "rq_data req" "u_category u"]
      stored assms(1)
    by (auto simp: UserSerializer_update_def user_categories_exist_iff)
  show ?thesis
    unfolding user_categories_exist_iff d'
  proof (intro ballI allI impI)
    fix x c
    assume x: "x \<in> set (users (d\<lparr>users := save_row u_id ?saved (users d)\<rparr>))"
      and c: "u_category x = Some c"
    from x have "x = ?saved \<or> x \<in> set (users d)"
      by (auto simp: save_row_def split: if_splits)
    then have "c \<in> c_id ` set (categories d)"
      using c new assms(1) by (auto simp: user_categories_exist_iff)
    then show "c \<in> c_id ` set (categories (d\<lparr>users := save_row u_id ?saved (users d)\<rparr>))"
      by simp
  qed
qed

lemma user_delete_handler_keeps_invariant:
  assumes "user_categories_exist d"
  shows "user_categories_exist (db_after (UserView_delete req d))"
proof -
  have "db_after (UserView_delete req d) = d \<or>
        (\<exists>k. db_after (UserView_delete req d) = User_delete k d)"
    by (auto simp: UserView_delete_def split: caller.splits sum.splits option.splits if_splits)
  with assms show ?thesis
    by (auto simp: user_delete_keeps_invariant)
qed

lemma step_keeps_user_categories:
  assumes "step d d'" and "user_categories_exist d"
  shows "user_categories_exist d'"
  using assms(1)
proof (cases rule: step.cases)
  case (project_post req)
  then show ?thesis
    using project_handlers_keep_users(1) same_tables_keep_invariant assms(2) by blast
next
  case (project_put req)
  then show ?thesis
    using project_handlers_keep_users(2) same_tables_keep_invariant assms(2) by blast
next
  case (project_delete req)
  then show ?thesis
    using project_handlers_keep_users(3) same_tables_keep_invariant assms(2) by blast
next
  case (samplework_post req)
  then show ?thesis
    using samplework_handlers_keep_users(1) same_tables_keep_invariant assms(2) by blast
next
  case (samplework_put req)
  then show ?thesis
    using samplework_handlers_keep_users(2) same_tables_keep_invariant assms(2) by blast
next
  case (samplework_delete req)
  then show ?thesis
    using samplework_handlers_keep_users(3) same_tables_keep_invariant assms(2) by blast
next
  case (user_post req dj)
  with assms(2) show ?thesis by (auto intro: user_post_keeps_invariant)
next
  case (user_put req dj)
  with assms(2) show ?thesis by (auto intro: user_put_keeps_invariant)
next
  case (user_delete req)
  with assms(2) show ?thesis by (auto intro: user_delete_handler_keeps_invariant)
next
  case (category_delete c)
  with assms(2) show ?thesis by (auto intro: category_delete_keeps_invariant)
qed

text \<open>
  C10. A category that some user refers to cannot be deleted: the deletion is rejected
  with \<^verbatim>\<open>ProtectedError\<close> and removes nothing, whereas a category that only skills and
  projects refer to is deleted. Hence, once every user's category exists, it exists after
  any sequence of operations.
\<close>

theorem category_protected_by_users:
  "((\<exists>u \<in> set (users d). u_category u = Some c) \<longrightarrow>
      Category_delete c d = Inl ProtectedError) \<and>
   (\<not> (\<exists>u \<in> set (users d). u_category u = Some c) \<longrightarrow>
      (\<exists>d'. Category_delete c d = Inr d')) \<and>
   (user_categories_exist d \<longrightarrow> step\<^sup>*\<^sup>* d e \<longrightarrow> user_categories_exist e)"
proof (intro conjI impI)
  assume "\<exists>u \<in> set (users d). u_category u = Some c"
  then show "Category_delete c d = Inl ProtectedError"
    by (simp add: Category_delete_def)
next
  assume "\<not> (\<exists>u \<in> set (users d). u_category u = Some c)"
  then show "\<exists>d'. Category_delete c d = Inr d'"
    by (simp add: Category_delete_def)
next
  assume "step\<^sup>*\<^sup>* d e" and "user_categories_exist d"
  then show "user_categories_exist e"
    by (induction rule: rtranclp_induct) (auto intro: step_keeps_user_categories)
qed

theorem category_protected_witness:
  "Category_delete 1 market = Inl ProtectedError \<and>
   Category_delete 2 market =
     Inr (market\<lparr>categories := [\<lparr>c_id = 1, c_name = ''Design'', c_created_at = 1\<rparr>]\<rparr>) \<and>
   user_categories_exist
     (market\<lparr>categories := [\<lparr>c_id = 1, c_name = ''Design'', c_created_at = 1\<rparr>]\<rparr>)"
proof -
  have gone: "Category_delete 2 market =
      Inr (market\<lparr>categories := [\<lparr>c_id = 1, c_name = ''Design'', c_created_at = 1\<rparr>]\<rparr>)"
    by (simp add: Category_delete_def fixture_defs)
  then have "step\<^sup>*\<^sup>* market
      (market\<lparr>categories := [\<lparr>c_id = 1, c_name = ''Design'', c_created_at = 1\<rparr>]\<rparr>)"
    by (blast intro: step.category_delete)
  moreover have "user_categories_exist market"
    by (simp add: user_categories_exist_def fixture_defs)
  moreover have "\<exists>u \<in> set (users market). u_category u = Some 1"
    by (simp add: fixture_defs)
  ultimately show ?thesis
    using gone
      category_protected_by_users [of market 1]
      category_protected_by_users
        [of market 2 "market\<lparr>categories := [\<lparr>c_id = 1, c_name = ''Design'', c_created_at = 1\<rparr>]\<rparr>"]
    by blast
qed

end
